theory Spec2Isabelle
  imports Main "HOL-Library.Word"
begin

section \<open>The Estes pickup-request client (package estes)\<close>

text \<open>
  A shallow embedding of \<^verbatim>\<open>estes.go\<close>: the package variables \<^verbatim>\<open>estesURL\<close> and
  \<^verbatim>\<open>timeout\<close>, the request and reply structs with their XML tags, and the three
  functions \<^verbatim>\<open>SetProductionMode\<close>, \<^verbatim>\<open>SetTimeout\<close> and \<^verbatim>\<open>RequestPickup\<close>.
  Go strings are byte sequences (\<open>string\<close>), \<^verbatim>\<open>time.Duration\<close> is a signed 64-bit
  count of nanoseconds (\<open>64 word\<close>, read with \<open>sint\<close>), \<^verbatim>\<open>uint\<close> is a 64-bit word
  (its size on a 64-bit platform) and \<^verbatim>\<open>float64\<close> is kept as its 64-bit pattern. What the program does to the world
  (log lines, the HTTP call, closing the reply body) is recorded as a list of events;
  what the world answers (the network, the tokens of a reply body, the text of a
  float) is a parameter of the model.
\<close>

subsection \<open>Constants and package variables\<close>

type_synonym bytes = string
type_synonym Duration = "64 word"

definition estesTestURL :: string where
  "estesTestURL = ''https://apitest.estes-express.com/tools/pickup/request/v1.0''"

definition estesProductionURL :: string where
  "estesProductionURL = ''https://api.estes-express.com/tools/pickup/request/v1.0''"

definition soapenvAttr :: string where
  "soapenvAttr = ''http://schemas.xmlsoap.org/soap/envelope/''"

definition estAttr :: string where
  "estAttr = ''http://estespickup.base.ws.provider.soapws.pickupRequest''"

text \<open>\<^verbatim>\<open>time.Second\<close>: 1000000000 nanoseconds.\<close>

definition Second :: Duration where
  "Second = 1000000000"

subsection \<open>The data model\<close>

text \<open>\<^verbatim>\<open>xml.Name\<close> of encoding/xml: a namespace and a local name.\<close>

record xml_Name =
  Space :: string
  Local :: string

record Name =
  First :: string
  Middle :: string
  Last :: string

record Phone =
  AreaCode :: string
  Number :: string

record Contact =
  Name :: Name
  Email :: string
  Phone :: Phone

record Address =
  AddressLine1 :: string
  City :: string
  StateProvince :: string
  PostalCode :: string
  Country :: string
  AddressLine2 :: string

record Shipper =
  ShipperName :: string
  ShipperAddress :: Address
  ShipperContact :: Contact

record PickupRequestInput =
  Shipper :: Shipper
  PickupDate :: string
  PickupStartTime :: string
  PickupEndTime :: string
  TotalPieces :: "64 word"
  TotalWeight :: "64 word"
  TotalHandlingUnits :: "64 word"
  RequestNumber :: string
  WhoRequested :: string

text \<open>
  \<^verbatim>\<open>PickupRequest\<close>; its \<^verbatim>\<open>XMLName\<close> field only carries the tag
  \<^verbatim>\<open>soapenv:Envelope\<close> and is never assigned.
\<close>

record PickupRequest =
  XMLName :: xml_Name
  SoapenvAttr :: string
  EstAttr :: string
  PickupRequestInput :: PickupRequestInput

text \<open>
  The two reply structs. Field names used twice in the source get a suffix here:
  \<open>RequestNumber_r\<close> is \<^verbatim>\<open>CreatePickupRequestResponse.RequestNumber\<close>,
  \<open>XMLName_s\<close> and \<open>XMLName_e\<close> are the \<^verbatim>\<open>XMLName\<close> fields of
  \<^verbatim>\<open>SuccessfulPickupRequest\<close> and \<^verbatim>\<open>ErrorPickupRequest\<close>.
\<close>

record CreatePickupRequestResponse =
  RequestNumber_r :: string

record SuccessfulPickupRequest =
  XMLName_s :: xml_Name
  Response :: CreatePickupRequestResponse

record ErrorPickupRequest =
  XMLName_e :: xml_Name
  Code :: string
  Description :: string
  BadData :: string

text \<open>The zero values Go gives to declared variables and named results.\<close>

definition zero_Name :: xml_Name where
  "zero_Name = \<lparr>Space = [], Local = []\<rparr>"

definition zero_SuccessfulPickupRequest :: SuccessfulPickupRequest where
  "zero_SuccessfulPickupRequest =
     \<lparr>XMLName_s = zero_Name, Response = \<lparr>RequestNumber_r = []\<rparr>\<rparr>"

definition zero_ErrorPickupRequest :: ErrorPickupRequest where
  "zero_ErrorPickupRequest =
     \<lparr>XMLName_e = zero_Name, Code = [], Description = [], BadData = []\<rparr>"

subsection \<open>Errors, requests, events\<close>

text \<open>
  Go errors as values: an error of a library call (by its message), the decoder's
  \<^verbatim>\<open>UnmarshalError\<close>, and the two constructors of github.com/pkg/errors the source
  uses. \<^verbatim>\<open>errors.Wrap(err, msg)\<close> keeps the cause and adds a message.
\<close>

datatype go_error =
    LibError string
  | UnmarshalError string
  | ErrNew string
  | ErrWrap go_error string

text \<open>The text \<^verbatim>\<open>err.Error()\<close> prints.\<close>

fun Error :: "go_error \<Rightarrow> string" where
  "Error (LibError m) = m"
| "Error (UnmarshalError m) = m"
| "Error (ErrNew m) = m"
| "Error (ErrWrap e m) = m @ '': '' @ Error e"

record request =
  Method :: string
  URL :: string
  Body :: bytes
  BasicAuth :: "(string \<times> string) option"
  Header :: "(string \<times> string) list"

text \<open>
  A reply of the server: its status code and what \<^verbatim>\<open>ioutil.ReadAll(res.Body)\<close> gives,
  an error or the whole body.
\<close>

record http_Response =
  StatusCode :: nat
  Body_ReadAll :: "go_error + bytes"

datatype event =
    Log_Println string
  | Log_Printf string
  | Log_Println_ErrorData ErrorPickupRequest
  | Http_Do request Duration
  | Body_Close

text \<open>The tokens \<^verbatim>\<open>xml.Decoder.Token\<close> returns.\<close>

datatype token =
    StartElement xml_Name "(xml_Name \<times> string) list"
  | EndElement xml_Name
  | CharData string
  | Comment string
  | ProcInst string string
  | Directive string

text \<open>
  The world outside the package:
  \<^item> \<open>formatFloat\<close>: \<^verbatim>\<open>strconv.FormatFloat(f, 'g', -1, 64)\<close>, on the bit pattern;
  \<^item> \<open>newRequest_err\<close>: the error of \<^verbatim>\<open>http.NewRequest\<close> for a method and a URL it
    refuses, if any;
  \<^item> \<open>client_Do\<close>: \<^verbatim>\<open>http.Client{Timeout: t}.Do(req)\<close>, an error (a timeout is one)
    or a reply;
  \<^item> \<open>tokenize\<close>: the tokens the XML decoder reads from a byte sequence, and the
    error that ends them (\<^verbatim>\<open>io.EOF\<close> at the end of the input, or a syntax error).
\<close>

record env =
  formatFloat :: "64 word \<Rightarrow> string"
  newRequest_err :: "string \<Rightarrow> string \<Rightarrow> go_error option"
  client_Do :: "Duration \<Rightarrow> request \<Rightarrow> go_error + http_Response"
  tokenize :: "bytes \<Rightarrow> token list \<times> go_error"

text \<open>
  The program state: the two package variables, and the objects that
  \<^verbatim>\<open>*PickupRequestInput\<close> pointers point to (an address with no object is nil).
\<close>

record state =
  estesURL :: string
  timeout :: Duration
  heap :: "nat \<rightharpoonup> PickupRequestInput"

text \<open>The package variables as initialised: the test URL and ten seconds.\<close>

definition init_state :: "(nat \<rightharpoonup> PickupRequestInput) \<Rightarrow> state" where
  "init_state h = \<lparr>estesURL = estesTestURL, timeout = 10 * Second, heap = h\<rparr>"

subsection \<open>Configuration\<close>

definition SetProductionMode :: "bool \<Rightarrow> state \<Rightarrow> state" where
  "SetProductionMode yes s = (if yes then s\<lparr>estesURL := estesProductionURL\<rparr> else s)"

text \<open>The product is a \<^verbatim>\<open>time.Duration\<close> product: it wraps at 64 bits.\<close>

definition SetTimeout :: "Duration \<Rightarrow> state \<Rightarrow> state" where
  "SetTimeout seconds s = s\<lparr>timeout := seconds * Second\<rparr>"

subsection \<open>Serialising the request: \<^verbatim>\<open>xml.Marshal\<close> on \<^verbatim>\<open>PickupRequest\<close>\<close>

text \<open>
  \<^verbatim>\<open>utf8.DecodeRune\<close>: the code point at the head of a byte sequence and its width;
  a byte that starts no valid encoding is \<^verbatim>\<open>RuneError\<close> with width 1.
\<close>

definition RuneError :: nat where
  "RuneError = 0xFFFD"

text \<open>
  The tables of \<^verbatim>\<open>utf8.DecodeRune\<close> for a lead byte from \<^verbatim>\<open>0xC2\<close> to \<^verbatim>\<open>0xF4\<close>:
  the length of the encoding, and the range the second byte must lie in.
\<close>

definition rune_size :: "nat \<Rightarrow> nat" where
  "rune_size p0 = (if p0 < 0xE0 then 2 else if p0 < 0xF0 then 3 else 4)"

definition accept_lo :: "nat \<Rightarrow> nat" where
  "accept_lo p0 = (if p0 = 0xE0 then 0xA0 else if p0 = 0xF0 then 0x90 else 0x80)"

definition accept_hi :: "nat \<Rightarrow> nat" where
  "accept_hi p0 = (if p0 = 0xED then 0x9F else if p0 = 0xF4 then 0x8F else 0xBF)"

definition DecodeRune :: "bytes \<Rightarrow> nat \<times> nat" where
  "DecodeRune p =
    (if p = [] then (RuneError, 0) else
     let p0 = of_char (p ! 0) :: nat in
     if p0 < 0x80 then (p0, 1)
     else if p0 < 0xC2 \<or> 0xF4 < p0 then (RuneError, 1)
     else
       let sz = rune_size p0
       in if length p < sz then (RuneError, 1) else
          let b1 = of_char (p ! 1) :: nat in
          if b1 < accept_lo p0 \<or> accept_hi p0 < b1 then (RuneError, 1)
          else if sz \<le> 2 then ((p0 mod 32) * 64 + b1 mod 64, 2) else
          let b2 = of_char (p ! 2) :: nat in
          if b2 < 0x80 \<or> 0xBF < b2 then (RuneError, 1)
          else if sz \<le> 3 then ((p0 mod 16) * 4096 + (b1 mod 64) * 64 + b2 mod 64, 3) else
          let b3 = of_char (p ! 3) :: nat in
          if b3 < 0x80 \<or> 0xBF < b3 then (RuneError, 1)
          else ((p0 mod 8) * 262144 + (b1 mod 64) * 4096 + (b2 mod 64) * 64 + b3 mod 64, 4))"

text \<open>\<^verbatim>\<open>isInCharacterRange\<close> of encoding/xml: the characters XML 1.0 allows.\<close>

definition isInCharacterRange :: "nat \<Rightarrow> bool" where
  "isInCharacterRange r \<longleftrightarrow>
     r = 0x09 \<or> r = 0x0A \<or> r = 0x0D \<or> (0x20 \<le> r \<and> r \<le> 0xD7FF) \<or>
     (0xE000 \<le> r \<and> r \<le> 0xFFFD) \<or> (0x10000 \<le> r \<and> r \<le> 0x10FFFF)"

text \<open>The UTF-8 bytes of U+FFFD, written for what XML cannot hold.\<close>

definition escFFFD :: bytes where
  "escFFFD = [CHR 0xEF, CHR 0xBF, CHR 0xBD]"

text \<open>
  One step of \<^verbatim>\<open>escapeText(w, s, true)\<close>: what is written for the code point \<open>r\<close> of
  width \<open>width\<close> whose bytes are \<open>raw\<close>.
\<close>

definition escape_rune :: "nat \<Rightarrow> nat \<Rightarrow> bytes \<Rightarrow> bytes" where
  "escape_rune r width raw =
    (if r = 0x22 then ''&#34;''
     else if r = 0x27 then ''&#39;''
     else if r = 0x26 then ''&amp;''
     else if r = 0x3C then ''&lt;''
     else if r = 0x3E then ''&gt;''
     else if r = 0x09 then ''&#x9;''
     else if r = 0x0A then ''&#xA;''
     else if r = 0x0D then ''&#xD;''
     else if \<not> isInCharacterRange r \<or> (r = RuneError \<and> width = 1) then escFFFD
     else raw)"

lemma DecodeRune_width: "p \<noteq> [] \<Longrightarrow> 1 \<le> snd (DecodeRune p) \<and> snd (DecodeRune p) \<le> 4"
  by (simp add: DecodeRune_def Let_def)

function escapeText :: "bytes \<Rightarrow> bytes" where
  "escapeText [] = []"
| "escapeText (c # cs) =
     (let r = fst (DecodeRune (c # cs)); width = snd (DecodeRune (c # cs))
      in escape_rune r width (take width (c # cs)) @ escapeText (drop width (c # cs)))"
  by pat_completeness auto
termination
proof (relation "measure length")
  show "wf (measure length)" by simp
next
  fix c :: char and cs :: bytes and x xa
  assume "xa = snd (DecodeRune (c # cs))"
  moreover have "1 \<le> snd (DecodeRune (c # cs))"
    using DecodeRune_width [of "c # cs"] by simp
  ultimately show "(drop xa (c # cs), c # cs) \<in> measure length"
    by (cases xa) simp_all
qed

declare escapeText.simps(2) [simp del]

text \<open>\<^verbatim>\<open>strconv.FormatUint(n, 10)\<close>.\<close>

definition digits :: string where
  "digits = ''0123456789''"

fun FormatUint :: "nat \<Rightarrow> string" where
  "FormatUint n =
     (if n < 10 then [digits ! n]
      else FormatUint (n div 10) @ [digits ! (n mod 10)])"

declare FormatUint.simps [simp del]

text \<open>
  The document the encoder writes, as a tree: an element with its attributes and
  children, or character data. \<open>render\<close> gives its bytes; the encoder never writes a
  self-closing tag, and it escapes attribute values and character data.
\<close>

datatype xml =
    Element string "(string \<times> string) list" "xml list"
  | Text string

definition render_attr :: "string \<times> string \<Rightarrow> bytes" where
  "render_attr a = '' '' @ fst a @ [CHR ''='', CHR 0x22] @ escapeText (snd a) @ [CHR 0x22]"

fun render :: "xml \<Rightarrow> bytes" where
  "render (Text s) = escapeText s"
| "render (Element n attrs cs) =
     ''<'' @ n @ concat (map render_attr attrs) @ ''>'' @
     concat (map render cs) @ ''</'' @ n @ ''>''"

text \<open>The shape of a document: its elements and attribute names, without any text.\<close>

fun shape :: "xml \<Rightarrow> xml" where
  "shape (Text s) = Text []"
| "shape (Element n attrs cs) = Element n (map (\<lambda>a. (fst a, [])) attrs) (map shape cs)"

text \<open>A field of a simple type: an element holding the field's text.\<close>

definition leaf :: "string \<Rightarrow> string \<Rightarrow> xml" where
  "leaf tag s = Element tag [] [Text s]"

text \<open>
  The children each struct contributes, in the order of its fields; no field has
  \<^verbatim>\<open>omitempty\<close>, so every field is written. A tag \<^verbatim>\<open>a>b\<close> nests \<^verbatim>\<open>b\<close> in \<^verbatim>\<open>a\<close>.
\<close>

definition fields_Name :: "Name \<Rightarrow> xml list" where
  "fields_Name n =
     [leaf ''firstName'' (First n), leaf ''middleName'' (Middle n), leaf ''lastName'' (Last n)]"

definition fields_Phone :: "Phone \<Rightarrow> xml list" where
  "fields_Phone ph = [leaf ''areaCode'' (AreaCode ph), leaf ''number'' (Number ph)]"

definition fields_Contact :: "Contact \<Rightarrow> xml list" where
  "fields_Contact c =
     [Element ''name'' [] (fields_Name (Name c)),
      leaf ''email'' (Email c),
      Element ''phone'' [] (fields_Phone (Phone c))]"

definition fields_Address :: "Address \<Rightarrow> xml list" where
  "fields_Address a =
     [leaf ''addressLine1'' (AddressLine1 a),
      leaf ''city'' (City a),
      leaf ''stateProvince'' (StateProvince a),
      leaf ''postalCode'' (PostalCode a),
      leaf ''countryAbbrev'' (Country a),
      leaf ''addressLine2'' (AddressLine2 a)]"

definition fields_Shipper :: "Shipper \<Rightarrow> xml list" where
  "fields_Shipper sh =
     [leaf ''shipperName'' (ShipperName sh),
      Element ''shipperAddress'' []
        [Element ''addressInfo'' [] (fields_Address (ShipperAddress sh))],
      Element ''shipperContacts'' []
        [Element ''shipperContact'' [] (fields_Contact (ShipperContact sh))]]"

definition fields_PickupRequestInput :: "env \<Rightarrow> PickupRequestInput \<Rightarrow> xml list" where
  "fields_PickupRequestInput e v =
     [Element ''shipper'' [] (fields_Shipper (Shipper v)),
      leaf ''pickupDate'' (PickupDate v),
      leaf ''pickupStartTime'' (PickupStartTime v),
      leaf ''pickupEndTime'' (PickupEndTime v),
      leaf ''totalPieces'' (FormatUint (unat (TotalPieces v))),
      leaf ''totalWeight'' (formatFloat e (TotalWeight v)),
      leaf ''totalHandlingUnits'' (FormatUint (unat (TotalHandlingUnits v))),
      leaf ''requestNumber'' (RequestNumber v),
      leaf ''whoRequested'' (WhoRequested v)]"

definition tree_PickupRequest :: "env \<Rightarrow> PickupRequest \<Rightarrow> xml" where
  "tree_PickupRequest e pr =
     Element ''soapenv:Envelope''
       [(''xmlns:soapenv'', SoapenvAttr pr), (''xmlns:est'', EstAttr pr)]
       [Element ''soapenv:Body'' []
         [Element ''est:createPickupRequestWS'' []
           [Element ''pickupRequestInput'' []
             (fields_PickupRequestInput e (PickupRequestInput pr))]]]"

text \<open>
  \<^verbatim>\<open>xml.Marshal(pickup)\<close>. Every field of \<^verbatim>\<open>PickupRequest\<close> has a type the encoder
  supports, so it returns no error; the result type keeps the error of the signature.
\<close>

definition xml_Marshal :: "env \<Rightarrow> PickupRequest \<Rightarrow> go_error + bytes" where
  "xml_Marshal e pr = Inr (render (tree_PickupRequest e pr))"

subsection \<open>Reading the reply: \<^verbatim>\<open>xml.Unmarshal\<close> on the two reply structs\<close>

text \<open>
  \<^verbatim>\<open>xml.Unmarshal(data, &v)\<close> reads tokens up to the first start element, refuses it
  when the struct's \<^verbatim>\<open>XMLName\<close> tag names another element, stores its name in
  \<^verbatim>\<open>XMLName\<close>, and then walks the element: a child that a field's tag names is read
  into the field, any other child is skipped, and the walk ends at the element's end
  tag. When the tokens end first, \<^verbatim>\<open>Unmarshal\<close> returns the decoder's error and the
  struct keeps what was stored so far. The walk is written as a machine that reads one
  token at a time; its mode says which element of the tag paths it is in.
\<close>

fun first_StartElement :: "token list \<Rightarrow> (xml_Name \<times> token list) option" where
  "first_StartElement [] = None"
| "first_StartElement (StartElement n a # ts) = Some (n, ts)"
| "first_StartElement (t # ts) = first_StartElement ts"

text \<open>
  \<^verbatim>\<open>SuccessfulPickupRequest\<close>: root \<^verbatim>\<open>Envelope\<close>, and \<^verbatim>\<open>Response\<close> at
  \<^verbatim>\<open>Body>createPickupRequestWSResponse\<close> with its \<^verbatim>\<open>requestNumber\<close>.
  \<open>Skipping d m\<close> is \<^verbatim>\<open>Decoder.Skip\<close> at depth \<open>d\<close>, returning to mode \<open>m\<close>.
\<close>

datatype smode =
    InEnvelope
  | InBody
  | InResponse
  | InRequestNumber string
  | Skipping nat smode
  | Finished

fun stepS :: "smode \<times> SuccessfulPickupRequest \<Rightarrow> token \<Rightarrow> smode \<times> SuccessfulPickupRequest" where
  "stepS (Skipping d m, v) (StartElement n a) = (Skipping (Suc d) m, v)"
| "stepS (Skipping d m, v) (EndElement n) =
     (case d of 0 \<Rightarrow> (m, v) | Suc d' \<Rightarrow> (Skipping d' m, v))"
| "stepS (InEnvelope, v) (StartElement n a) =
     (if Local n = ''Body'' then (InBody, v) else (Skipping 0 InEnvelope, v))"
| "stepS (InEnvelope, v) (EndElement n) = (Finished, v)"
| "stepS (InBody, v) (StartElement n a) =
     (if Local n = ''createPickupRequestWSResponse'' then (InResponse, v)
      else (Skipping 0 InBody, v))"
| "stepS (InBody, v) (EndElement n) = (InEnvelope, v)"
| "stepS (InResponse, v) (StartElement n a) =
     (if Local n = ''requestNumber'' then (InRequestNumber [], v)
      else (Skipping 0 InResponse, v))"
| "stepS (InResponse, v) (EndElement n) = (InBody, v)"
| "stepS (InRequestNumber acc, v) (StartElement n a) = (Skipping 0 (InRequestNumber acc), v)"
| "stepS (InRequestNumber acc, v) (EndElement n) =
     (InResponse, v\<lparr>Response := (Response v)\<lparr>RequestNumber_r := acc\<rparr>\<rparr>)"
| "stepS (InRequestNumber acc, v) (CharData d) = (InRequestNumber (acc @ d), v)"
| "stepS (m, v) t = (m, v)"

fun runS :: "smode \<times> SuccessfulPickupRequest \<Rightarrow> token list \<Rightarrow> smode \<times> SuccessfulPickupRequest" where
  "runS st [] = st"
| "runS st (t # ts) = (if fst st = Finished then st else runS (stepS st t) ts)"

definition xml_Unmarshal_Success ::
  "env \<Rightarrow> bytes \<Rightarrow> SuccessfulPickupRequest \<Rightarrow> SuccessfulPickupRequest \<times> go_error option" where
  "xml_Unmarshal_Success e data v =
    (case first_StartElement (fst (tokenize e data)) of
       None \<Rightarrow> (v, Some (snd (tokenize e data)))
     | Some (n, rest) \<Rightarrow>
         if Local n \<noteq> ''Envelope''
         then (v, Some (UnmarshalError
                 (''expected element type <Envelope> but have <'' @ Local n @ ''>'')))
         else (case runS (InEnvelope, v\<lparr>XMLName_s := n\<rparr>) rest of
                 (m, v') \<Rightarrow> (v', if m = Finished then None else Some (snd (tokenize e data)))))"

text \<open>
  \<^verbatim>\<open>ErrorPickupRequest\<close>: root \<^verbatim>\<open>error\<close> with the children \<^verbatim>\<open>code\<close>,
  \<^verbatim>\<open>description\<close> and \<^verbatim>\<open>badData\<close>.
\<close>

datatype emode =
    InError
  | InCode string
  | InDescription string
  | InBadData string
  | ESkipping nat emode
  | EFinished

fun stepE :: "emode \<times> ErrorPickupRequest \<Rightarrow> token \<Rightarrow> emode \<times> ErrorPickupRequest" where
  "stepE (ESkipping d m, v) (StartElement n a) = (ESkipping (Suc d) m, v)"
| "stepE (ESkipping d m, v) (EndElement n) =
     (case d of 0 \<Rightarrow> (m, v) | Suc d' \<Rightarrow> (ESkipping d' m, v))"
| "stepE (InError, v) (StartElement n a) =
     (if Local n = ''code'' then (InCode [], v)
      else if Local n = ''description'' then (InDescription [], v)
      else if Local n = ''badData'' then (InBadData [], v)
      else (ESkipping 0 InError, v))"
| "stepE (InError, v) (EndElement n) = (EFinished, v)"
| "stepE (InCode acc, v) (StartElement n a) = (ESkipping 0 (InCode acc), v)"
| "stepE (InCode acc, v) (EndElement n) = (InError, v\<lparr>Code := acc\<rparr>)"
| "stepE (InCode acc, v) (CharData d) = (InCode (acc @ d), v)"
| "stepE (InDescription acc, v) (StartElement n a) = (ESkipping 0 (InDescription acc), v)"
| "stepE (InDescription acc, v) (EndElement n) = (InError, v\<lparr>Description := acc\<rparr>)"
| "stepE (InDescription acc, v) (CharData d) = (InDescription (acc @ d), v)"
| "stepE (InBadData acc, v) (StartElement n a) = (ESkipping 0 (InBadData acc), v)"
| "stepE (InBadData acc, v) (EndElement n) = (InError, v\<lparr>BadData := acc\<rparr>)"
| "stepE (InBadData acc, v) (CharData d) = (InBadData (acc @ d), v)"
| "stepE (m, v) t = (m, v)"

fun runE :: "emode \<times> ErrorPickupRequest \<Rightarrow> token list \<Rightarrow> emode \<times> ErrorPickupRequest" where
  "runE st [] = st"
| "runE st (t # ts) = (if fst st = EFinished then st else runE (stepE st t) ts)"

definition xml_Unmarshal_Error ::
  "env \<Rightarrow> bytes \<Rightarrow> ErrorPickupRequest \<Rightarrow> ErrorPickupRequest \<times> go_error option" where
  "xml_Unmarshal_Error e data v =
    (case first_StartElement (fst (tokenize e data)) of
       None \<Rightarrow> (v, Some (snd (tokenize e data)))
     | Some (n, rest) \<Rightarrow>
         if Local n \<noteq> ''error''
         then (v, Some (UnmarshalError
                 (''expected element type <error> but have <'' @ Local n @ ''>'')))
         else (case runE (InError, v\<lparr>XMLName_e := n\<rparr>) rest of
                 (m, v') \<Rightarrow> (v', if m = EFinished then None else Some (snd (tokenize e data)))))"

subsection \<open>\<^verbatim>\<open>RequestPickup\<close>\<close>

text \<open>
  What a call leaves behind: it panics or returns its two named results
  \<^verbatim>\<open>responseData\<close> and \<^verbatim>\<open>err\<close>; \<open>trace\<close> lists its events in order and \<open>after\<close> is
  the program state when it is over.
\<close>

datatype ret =
    Panic string
  | Return SuccessfulPickupRequest "go_error option"

record outcome =
  ret :: ret
  trace :: "event list"
  after :: state

text \<open>\<^verbatim>\<open>http.NewRequest\<close>, \<^verbatim>\<open>req.SetBasicAuth\<close> and \<^verbatim>\<open>req.Header.Add\<close>.\<close>

definition http_NewRequest :: "env \<Rightarrow> string \<Rightarrow> string \<Rightarrow> bytes \<Rightarrow> go_error + request" where
  "http_NewRequest e m url b =
     (case newRequest_err e m url of
        Some err \<Rightarrow> Inl err
      | None \<Rightarrow> Inr \<lparr>Method = m, URL = url, Body = b, BasicAuth = None, Header = []\<rparr>)"

definition SetBasicAuth :: "string \<Rightarrow> string \<Rightarrow> request \<Rightarrow> request" where
  "SetBasicAuth username password req = req\<lparr>BasicAuth := Some (username, password)\<rparr>"

definition Header_Add :: "string \<Rightarrow> string \<Rightarrow> request \<Rightarrow> request" where
  "Header_Add k v req = req\<lparr>Header := Header req @ [(k, v)]\<rparr>"

text \<open>
  Lines 203 to 226 of the source: the reply body is read into \<^verbatim>\<open>responseData\<close>; a
  decoder error is wrapped and returned at once; an empty request number gives the
  fixed error after the body and the result of reading it as an
  \<^verbatim>\<open>ErrorPickupRequest\<close> are logged (the error of that second read is dropped). The
  returns are bare, so \<^verbatim>\<open>responseData\<close> is returned as the decoder left it. \<open>tr\<close> is
  the trace so far; the deferred \<^verbatim>\<open>res.Body.Close()\<close> runs last.
\<close>

definition read_reply :: "env \<Rightarrow> state \<Rightarrow> event list \<Rightarrow> bytes \<Rightarrow> outcome" where
  "read_reply e s tr body =
    (case xml_Unmarshal_Success e body zero_SuccessfulPickupRequest of
       (responseData, Some err) \<Rightarrow>
         \<lparr>ret = Return responseData
                  (Some (ErrWrap err ''estes.RequestPickup - could not read response 2'')),
          trace = tr @ [Log_Println body, Body_Close],
          after = s\<rparr>
     | (responseData, None) \<Rightarrow>
         if RequestNumber_r (Response responseData) = []
         then
           let errorData = fst (xml_Unmarshal_Error e body zero_ErrorPickupRequest)
           in \<lparr>ret = Return responseData
                        (Some (ErrNew ''estes.RequestPickup - pickup request failed'')),
                trace = tr @ [Log_Println ''estes.RequestPickup - pickup request failed'',
                              Log_Printf body,
                              Log_Println_ErrorData errorData,
                              Body_Close],
                after = s\<rparr>
         else \<lparr>ret = Return responseData None, trace = tr @ [Body_Close], after = s\<rparr>)"

text \<open>
  The method on \<^verbatim>\<open>*PickupRequestInput\<close>, with the receiver \<open>p\<close> an address of the
  heap. Reading \<^verbatim>\<open>*p\<close> through a nil pointer panics.
\<close>

definition RequestPickup :: "env \<Rightarrow> state \<Rightarrow> nat \<Rightarrow> string \<Rightarrow> string \<Rightarrow> outcome" where
  "RequestPickup e s p estesUsername estesPassword =
    (case heap s p of
       None \<Rightarrow>
         \<lparr>ret = Panic ''invalid memory address or nil pointer dereference'',
          trace = [], after = s\<rparr>
     | Some v \<Rightarrow>
        (let pickup = \<lparr>XMLName = zero_Name, SoapenvAttr = soapenvAttr, EstAttr = estAttr,
                       PickupRequestInput = v\<rparr>
         in (case xml_Marshal e pickup of
           Inl err \<Rightarrow>
             \<lparr>ret = Return zero_SuccessfulPickupRequest
                      (Some (ErrWrap err ''estes.RequestPickup - could not marshal xml'')),
              trace = [], after = s\<rparr>
         | Inr xmlBytes \<Rightarrow>
             (case http_NewRequest e ''POST'' estesProductionURL xmlBytes of
                Inl err \<Rightarrow>
                  \<lparr>ret = Return zero_SuccessfulPickupRequest
                           (Some (ErrWrap err ''estes.RequestPickup - could not make build request'')),
                   trace = [Log_Println xmlBytes], after = s\<rparr>
              | Inr req0 \<Rightarrow>
                 (let req = Header_Add ''Content-Type'' ''text/xml''
                              (SetBasicAuth estesUsername estesPassword req0);
                      tr = [Log_Println xmlBytes, Http_Do req (timeout s)]
                  in (case client_Do e (timeout s) req of
                    Inl err \<Rightarrow>
                      \<lparr>ret = Return zero_SuccessfulPickupRequest
                               (Some (ErrWrap err ''estes.RequestPickup - could not make post request'')),
                       trace = tr, after = s\<rparr>
                  | Inr res \<Rightarrow>
                      (case Body_ReadAll res of
                         Inl err \<Rightarrow>
                           \<lparr>ret = Return zero_SuccessfulPickupRequest
                                    (Some (ErrWrap err ''estes.RequestPickup - could not read response 1'')),
                            trace = tr @ [Body_Close], after = s\<rparr>
                       | Inr body \<Rightarrow> read_reply e s tr body)))))))"

text \<open>The HTTP calls among the events of a call, with the timeout of each.\<close>

fun posts :: "event list \<Rightarrow> (request \<times> Duration) list" where
  "posts [] = []"
| "posts (Http_Do req t # evs) = (req, t) # posts evs"
| "posts (ev # evs) = posts evs"

text \<open>A caller's sequence of calls into the package, run from a state.\<close>

datatype call =
    Call_SetProductionMode bool
  | Call_SetTimeout Duration
  | Call_RequestPickup nat string string

fun exec :: "env \<Rightarrow> state \<Rightarrow> call \<Rightarrow> state" where
  "exec e s (Call_SetProductionMode yes) = SetProductionMode yes s"
| "exec e s (Call_SetTimeout d) = SetTimeout d s"
| "exec e s (Call_RequestPickup p u pw) = after (RequestPickup e s p u pw)"

fun exec_all :: "env \<Rightarrow> state \<Rightarrow> call list \<Rightarrow> state" where
  "exec_all e s [] = s"
| "exec_all e s (c # cs) = exec_all e (exec e s c) cs"

text \<open>
  The bytes \<^verbatim>\<open>RequestPickup\<close> serialises for an input, and the request it has built
  when it calls \<^verbatim>\<open>httpClient.Do\<close> (lines 159 to 187).
\<close>

definition pickup_xml :: "env \<Rightarrow> PickupRequestInput \<Rightarrow> bytes" where
  "pickup_xml e v =
     render (tree_PickupRequest e
       \<lparr>XMLName = zero_Name, SoapenvAttr = soapenvAttr, EstAttr = estAttr,
        PickupRequestInput = v\<rparr>)"

definition pickup_request :: "env \<Rightarrow> PickupRequestInput \<Rightarrow> string \<Rightarrow> string \<Rightarrow> request" where
  "pickup_request e v username password =
     \<lparr>Method = ''POST'', URL = estesProductionURL, Body = pickup_xml e v,
      BasicAuth = Some (username, password),
      Header = [(''Content-Type'', ''text/xml'')]\<rparr>"

subsection \<open>Reading the request back\<close>

text \<open>
  The package has no reader for the document it writes. For the round trip of the
  spec ("serializing and then parsing the produced XML against the documented schema
  yields back the same field values") the reader is written here from the spec's
  words: it expects the elements of the schema in their documented order, takes the
  character data of each simple field up to the next tag, and undoes the eight
  escapes the serialiser writes. \<open>valid_text\<close> holds of the byte sequences that
  \<^verbatim>\<open>escapeText\<close> writes without replacing anything by U+FFFD: valid UTF-8 of
  characters XML allows. \<open>plain\<close> characters are printable ASCII other than the five
  that are escaped.
\<close>

function valid_text :: "bytes \<Rightarrow> bool" where
  "valid_text [] = True"
| "valid_text (c # cs) =
     (let r = fst (DecodeRune (c # cs)); width = snd (DecodeRune (c # cs))
      in isInCharacterRange r \<and> \<not> (r = RuneError \<and> width = 1) \<and>
         valid_text (drop width (c # cs)))"
  by pat_completeness auto
termination
proof (relation "measure length")
  show "wf (measure length)" by simp
next
  fix c :: char and cs :: bytes and x xa
  assume "xa = snd (DecodeRune (c # cs))"
  moreover have "1 \<le> snd (DecodeRune (c # cs))"
    using DecodeRune_width [of "c # cs"] by simp
  ultimately show "(drop xa (c # cs), c # cs) \<in> measure length"
    by (cases xa) simp_all
qed

declare valid_text.simps(2) [simp del]

fun unescape :: "bytes \<Rightarrow> bytes" where
  "unescape [] = []"
| "unescape (c # cs) =
     (if c = CHR ''&'' then
        (if take 4 cs = ''#34;'' then CHR 0x22 # unescape (drop 4 cs)
         else if take 4 cs = ''#39;'' then CHR 0x27 # unescape (drop 4 cs)
         else if take 4 cs = ''amp;'' then CHR ''&'' # unescape (drop 4 cs)
         else if take 3 cs = ''lt;'' then CHR ''<'' # unescape (drop 3 cs)
         else if take 3 cs = ''gt;'' then CHR ''>'' # unescape (drop 3 cs)
         else if take 4 cs = ''#x9;'' then CHR 0x09 # unescape (drop 4 cs)
         else if take 4 cs = ''#xA;'' then CHR 0x0A # unescape (drop 4 cs)
         else if take 4 cs = ''#xD;'' then CHR 0x0D # unescape (drop 4 cs)
         else c # unescape cs)
      else c # unescape cs)"

definition plain :: "char \<Rightarrow> bool" where
  "plain c \<longleftrightarrow> 0x20 \<le> (of_char c :: nat) \<and> (of_char c :: nat) < 0x7F \<and>
     (of_char c :: nat) \<notin> {0x22, 0x27, 0x26, 0x3C, 0x3E}"

definition open_tag :: "string \<Rightarrow> bytes" where
  "open_tag n = ''<'' @ n @ ''>''"

definition close_tag :: "string \<Rightarrow> bytes" where
  "close_tag n = ''</'' @ n @ ''>''"

definition expect :: "bytes \<Rightarrow> bytes \<Rightarrow> bytes option" where
  "expect lit s = (if take (length lit) s = lit then Some (drop (length lit) s) else None)"

definition parse_text :: "string \<Rightarrow> bytes \<Rightarrow> (string \<times> bytes) option" where
  "parse_text tag s =
     (case expect (open_tag tag) s of
        None \<Rightarrow> None
      | Some s1 \<Rightarrow>
          (case expect (close_tag tag) (dropWhile (\<lambda>c. c \<noteq> CHR ''<'') s1) of
             None \<Rightarrow> None
           | Some s2 \<Rightarrow> Some (unescape (takeWhile (\<lambda>c. c \<noteq> CHR ''<'') s1), s2)))"

fun digit_of :: "char \<Rightarrow> nat option" where
  "digit_of c =
     (if 48 \<le> (of_char c :: nat) \<and> (of_char c :: nat) \<le> 57 then Some (of_char c - 48) else None)"

fun parse_digits :: "nat \<Rightarrow> string \<Rightarrow> nat option" where
  "parse_digits acc [] = Some acc"
| "parse_digits acc (c # cs) =
     (case digit_of c of None \<Rightarrow> None | Some d \<Rightarrow> parse_digits (acc * 10 + d) cs)"

definition ParseUint :: "string \<Rightarrow> 64 word option" where
  "ParseUint s =
     (if s = [] then None
      else case parse_digits 0 s of
             None \<Rightarrow> None
           | Some n \<Rightarrow> if n < 2 ^ 64 then Some (of_nat n) else None)"

definition parse_elem ::
  "string \<Rightarrow> (bytes \<Rightarrow> ('a \<times> bytes) option) \<Rightarrow> bytes \<Rightarrow> ('a \<times> bytes) option" where
  "parse_elem tag p s =
     Option.bind (expect (open_tag tag) s) (\<lambda>s1.
     Option.bind (p s1) (\<lambda>(v, s2).
     Option.bind (expect (close_tag tag) s2) (\<lambda>s3. Some (v, s3))))"

definition parse_Name :: "bytes \<Rightarrow> (Name \<times> bytes) option" where
  "parse_Name s =
     Option.bind (parse_text ''firstName'' s) (\<lambda>(f, s).
     Option.bind (parse_text ''middleName'' s) (\<lambda>(m, s).
     Option.bind (parse_text ''lastName'' s) (\<lambda>(l, s).
     Some (\<lparr>First = f, Middle = m, Last = l\<rparr>, s))))"

definition parse_Phone :: "bytes \<Rightarrow> (Phone \<times> bytes) option" where
  "parse_Phone s =
     Option.bind (parse_text ''areaCode'' s) (\<lambda>(a, s).
     Option.bind (parse_text ''number'' s) (\<lambda>(n, s).
     Some (\<lparr>AreaCode = a, Number = n\<rparr>, s)))"

definition parse_Contact :: "bytes \<Rightarrow> (Contact \<times> bytes) option" where
  "parse_Contact s =
     Option.bind (parse_elem ''name'' parse_Name s) (\<lambda>(n, s).
     Option.bind (parse_text ''email'' s) (\<lambda>(m, s).
     Option.bind (parse_elem ''phone'' parse_Phone s) (\<lambda>(ph, s).
     Some (\<lparr>Name = n, Email = m, Phone = ph\<rparr>, s))))"

definition parse_Address :: "bytes \<Rightarrow> (Address \<times> bytes) option" where
  "parse_Address s =
     Option.bind (parse_text ''addressLine1'' s) (\<lambda>(a1, s).
     Option.bind (parse_text ''city'' s) (\<lambda>(ci, s).
     Option.bind (parse_text ''stateProvince'' s) (\<lambda>(st, s).
     Option.bind (parse_text ''postalCode'' s) (\<lambda>(pc, s).
     Option.bind (parse_text ''countryAbbrev'' s) (\<lambda>(co, s).
     Option.bind (parse_text ''addressLine2'' s) (\<lambda>(a2, s).
     Some (\<lparr>AddressLine1 = a1, City = ci, StateProvince = st, PostalCode = pc,
            Country = co, AddressLine2 = a2\<rparr>, s)))))))"

definition parse_Shipper :: "bytes \<Rightarrow> (Shipper \<times> bytes) option" where
  "parse_Shipper s =
     Option.bind (parse_text ''shipperName'' s) (\<lambda>(n, s).
     Option.bind (parse_elem ''shipperAddress'' (parse_elem ''addressInfo'' parse_Address) s) (\<lambda>(a, s).
     Option.bind (parse_elem ''shipperContacts'' (parse_elem ''shipperContact'' parse_Contact) s) (\<lambda>(c, s).
     Some (\<lparr>ShipperName = n, ShipperAddress = a, ShipperContact = c\<rparr>, s))))"

definition parse_PickupRequestInput ::
  "(string \<Rightarrow> 64 word option) \<Rightarrow> bytes \<Rightarrow> (PickupRequestInput \<times> bytes) option" where
  "parse_PickupRequestInput pf s =
     Option.bind (parse_elem ''shipper'' parse_Shipper s) (\<lambda>(sh, s).
     Option.bind (parse_text ''pickupDate'' s) (\<lambda>(pd, s).
     Option.bind (parse_text ''pickupStartTime'' s) (\<lambda>(ps, s).
     Option.bind (parse_text ''pickupEndTime'' s) (\<lambda>(pe, s).
     Option.bind (parse_text ''totalPieces'' s) (\<lambda>(tp, s).
     Option.bind (ParseUint tp) (\<lambda>pieces.
     Option.bind (parse_text ''totalWeight'' s) (\<lambda>(tw, s).
     Option.bind (pf tw) (\<lambda>weight.
     Option.bind (parse_text ''totalHandlingUnits'' s) (\<lambda>(th, s).
     Option.bind (ParseUint th) (\<lambda>units.
     Option.bind (parse_text ''requestNumber'' s) (\<lambda>(rn, s).
     Option.bind (parse_text ''whoRequested'' s) (\<lambda>(wr, s).
     Some (\<lparr>Shipper = sh, PickupDate = pd, PickupStartTime = ps, PickupEndTime = pe,
            TotalPieces = pieces, TotalWeight = weight, TotalHandlingUnits = units,
            RequestNumber = rn, WhoRequested = wr\<rparr>, s)))))))))))))"

definition envelope_open :: bytes where
  "envelope_open =
     ''<soapenv:Envelope'' @ render_attr (''xmlns:soapenv'', soapenvAttr) @
     render_attr (''xmlns:est'', estAttr) @ ''>''"

definition parse_envelope :: "(string \<Rightarrow> 64 word option) \<Rightarrow> bytes \<Rightarrow> PickupRequestInput option" where
  "parse_envelope pf s =
     Option.bind (expect envelope_open s) (\<lambda>s.
     Option.bind (parse_elem ''soapenv:Body''
                   (parse_elem ''est:createPickupRequestWS''
                     (parse_elem ''pickupRequestInput'' (parse_PickupRequestInput pf))) s) (\<lambda>(v, s).
     Option.bind (expect (close_tag ''soapenv:Envelope'') s) (\<lambda>s.
     if s = [] then Some v else None)))"

definition valid_input :: "env \<Rightarrow> PickupRequestInput \<Rightarrow> bool" where
  "valid_input e v \<longleftrightarrow>
     valid_text (ShipperName (Shipper v)) \<and>
     valid_text (AddressLine1 (ShipperAddress (Shipper v))) \<and>
     valid_text (City (ShipperAddress (Shipper v))) \<and>
     valid_text (StateProvince (ShipperAddress (Shipper v))) \<and>
     valid_text (PostalCode (ShipperAddress (Shipper v))) \<and>
     valid_text (Country (ShipperAddress (Shipper v))) \<and>
     valid_text (AddressLine2 (ShipperAddress (Shipper v))) \<and>
     valid_text (First (Name (ShipperContact (Shipper v)))) \<and>
     valid_text (Middle (Name (ShipperContact (Shipper v)))) \<and>
     valid_text (Last (Name (ShipperContact (Shipper v)))) \<and>
     valid_text (Email (ShipperContact (Shipper v))) \<and>
     valid_text (AreaCode (Phone (ShipperContact (Shipper v)))) \<and>
     valid_text (Number (Phone (ShipperContact (Shipper v)))) \<and>
     valid_text (PickupDate v) \<and>
     valid_text (PickupStartTime v) \<and>
     valid_text (PickupEndTime v) \<and>
     valid_text (formatFloat e (TotalWeight v)) \<and>
     valid_text (RequestNumber v) \<and>
     valid_text (WhoRequested v)"

subsection \<open>Sample inputs and worlds\<close>

text \<open>
  A shipment, and worlds in which the server answers every request with one given
  body. \<open>served body toks\<close> is told the tokens of that body; it prints the float
  \<open>0.0\<close> (bit pattern 0, the only weight the samples use) as \<^verbatim>\<open>0\<close>.
\<close>

definition sample_input :: PickupRequestInput where
  "sample_input =
     \<lparr>Shipper =
        \<lparr>ShipperName = ''ACME Tools'',
         ShipperAddress =
           \<lparr>AddressLine1 = ''1 Main St'', City = ''Richmond'', StateProvince = ''VA'',
            PostalCode = ''23230'', Country = ''US'', AddressLine2 = []\<rparr>,
         ShipperContact =
           \<lparr>Name = \<lparr>First = ''Ann'', Middle = [], Last = ''Lee''\<rparr>,
            Email = ''ann@acme.example'',
            Phone = \<lparr>AreaCode = ''804'', Number = ''5550100''\<rparr>\<rparr>\<rparr>,
      PickupDate = ''2019-03-01'',
      PickupStartTime = ''0900'',
      PickupEndTime = ''1700'',
      TotalPieces = 12,
      TotalWeight = 0x4059000000000000,
      TotalHandlingUnits = 2,
      RequestNumber = [],
      WhoRequested = ''Ann''\<rparr>"

text \<open>The object at address \<open>sample_addr\<close>, in the state the package starts in.\<close>

definition sample_addr :: nat where
  "sample_addr = 1"

definition sample_state :: state where
  "sample_state = init_state [sample_addr \<mapsto> sample_input]"

text \<open>Another state: production mode, thirty seconds, the same shipment elsewhere.\<close>

definition other_state :: state where
  "other_state = SetProductionMode True (SetTimeout 30 (init_state [Suc sample_addr \<mapsto> sample_input]))"

text \<open>
  Two shipments that differ in one control character of an optional field, and the
  float reader of the samples.
\<close>

definition ctl_input :: "char \<Rightarrow> PickupRequestInput" where
  "ctl_input c = sample_input\<lparr>WhoRequested := [c]\<rparr>"

definition sample_ParseFloat :: "string \<Rightarrow> 64 word option" where
  "sample_ParseFloat s = (if s = ''100'' then Some 0x4059000000000000 else None)"

text \<open>The document \<^verbatim>\<open>xml.Marshal\<close> writes for the sample shipment.\<close>

definition sample_document :: bytes where
  "sample_document =
     ''<soapenv:Envelope xmlns:soapenv='' @ [CHR 0x22] @
     ''http://schemas.xmlsoap.org/soap/envelope/'' @ [CHR 0x22] @
     '' xmlns:est='' @ [CHR 0x22] @
     ''http://estespickup.base.ws.provider.soapws.pickupRequest'' @ [CHR 0x22] @
     ''><soapenv:Body><est:createPickupRequestWS><pickupRequestInput>'' @
     ''<shipper><shipperName>ACME Tools</shipperName>'' @
     ''<shipperAddress><addressInfo><addressLine1>1 Main St</addressLine1>'' @
     ''<city>Richmond</city><stateProvince>VA</stateProvince>'' @
     ''<postalCode>23230</postalCode><countryAbbrev>US</countryAbbrev>'' @
     ''<addressLine2></addressLine2></addressInfo></shipperAddress>'' @
     ''<shipperContacts><shipperContact>'' @
     ''<name><firstName>Ann</firstName><middleName></middleName><lastName>Lee</lastName></name>'' @
     ''<email>ann@acme.example</email>'' @
     ''<phone><areaCode>804</areaCode><number>5550100</number></phone>'' @
     ''</shipperContact></shipperContacts></shipper>'' @
     ''<pickupDate>2019-03-01</pickupDate><pickupStartTime>0900</pickupStartTime>'' @
     ''<pickupEndTime>1700</pickupEndTime><totalPieces>12</totalPieces>'' @
     ''<totalWeight>100</totalWeight><totalHandlingUnits>2</totalHandlingUnits>'' @
     ''<requestNumber></requestNumber><whoRequested>Ann</whoRequested>'' @
     ''</pickupRequestInput></est:createPickupRequestWS></soapenv:Body></soapenv:Envelope>''"

definition EOF :: go_error where
  "EOF = LibError ''EOF''"

definition unexpected_EOF :: go_error where
  "unexpected_EOF = LibError ''XML syntax error on line 1: unexpected EOF''"

definition sample_FormatFloat :: "64 word \<Rightarrow> string" where
  "sample_FormatFloat w = (if w = 0x4059000000000000 then ''100'' else [])"

definition served_with :: "bytes \<Rightarrow> token list \<Rightarrow> go_error \<Rightarrow> env" where
  "served_with body toks fin =
     \<lparr>formatFloat = sample_FormatFloat,
      newRequest_err = (\<lambda>m u. None),
      client_Do = (\<lambda>t r. Inr \<lparr>StatusCode = 200, Body_ReadAll = Inr body\<rparr>),
      tokenize = (\<lambda>b. if b = body then (toks, fin) else ([], EOF))\<rparr>"

definition served :: "bytes \<Rightarrow> token list \<Rightarrow> env" where
  "served body toks = served_with body toks EOF"

text \<open>A world with no network: every call fails to connect.\<close>

definition offline :: env where
  "offline =
     \<lparr>formatFloat = sample_FormatFloat,
      newRequest_err = (\<lambda>m u. None),
      client_Do = (\<lambda>t r. Inl (LibError ''dial tcp: connection refused'')),
      tokenize = (\<lambda>b. ([], EOF))\<rparr>"

definition el :: "string \<Rightarrow> token" where
  "el n = StartElement \<lparr>Space = [], Local = n\<rparr> []"

definition en :: "string \<Rightarrow> token" where
  "en n = EndElement \<lparr>Space = [], Local = n\<rparr>"

text \<open>A confirmation, a reply with no request number, a carrier error, a cut reply.\<close>

definition ok_body :: bytes where
  "ok_body = ''<Envelope><Body><createPickupRequestWSResponse><requestNumber>A123</requestNumber></createPickupRequestWSResponse></Body></Envelope>''"

definition ok_tokens :: "token list" where
  "ok_tokens =
     [el ''Envelope'', el ''Body'', el ''createPickupRequestWSResponse'',
      el ''requestNumber'', CharData ''A123'', en ''requestNumber'',
      en ''createPickupRequestWSResponse'', en ''Body'', en ''Envelope'']"

definition empty_body :: bytes where
  "empty_body = ''<Envelope><Body></Body></Envelope>''"

definition empty_tokens :: "token list" where
  "empty_tokens = [el ''Envelope'', el ''Body'', en ''Body'', en ''Envelope'']"

definition error_body :: "string \<Rightarrow> bytes" where
  "error_body c = ''<error><code>'' @ c @ ''</code><description>Invalid date</description><badData>2019-02-30</badData></error>''"

definition error_tokens :: "string \<Rightarrow> token list" where
  "error_tokens c =
     [el ''error'', el ''code'', CharData c, en ''code'',
      el ''description'', CharData ''Invalid date'', en ''description'',
      el ''badData'', CharData ''2019-02-30'', en ''badData'', en ''error'']"

definition cut_body :: bytes where
  "cut_body = ''<Envelope><Body><createPickupRequestWSResponse><requestNumber>A123</requestNumber>''"

definition cut_tokens :: "token list" where
  "cut_tokens =
     [el ''Envelope'', el ''Body'', el ''createPickupRequestWSResponse'',
      el ''requestNumber'', CharData ''A123'', en ''requestNumber'']"

section \<open>Properties\<close>

subsection \<open>The paths of \<^verbatim>\<open>RequestPickup\<close>\<close>

lemma xml_Marshal_pickup:
  "xml_Marshal e \<lparr>XMLName = zero_Name, SoapenvAttr = soapenvAttr, EstAttr = estAttr,
     PickupRequestInput = v\<rparr> = Inr (pickup_xml e v)"
  by (simp add: xml_Marshal_def pickup_xml_def)

lemma RequestPickup_nil:
  "heap s p = None \<Longrightarrow>
   RequestPickup e s p u pw =
     \<lparr>ret = Panic ''invalid memory address or nil pointer dereference'', trace = [], after = s\<rparr>"
  by (simp add: RequestPickup_def)

lemma RequestPickup_build_fails:
  "heap s p = Some v \<Longrightarrow> newRequest_err e ''POST'' estesProductionURL = Some e0 \<Longrightarrow>
   RequestPickup e s p u pw =
     \<lparr>ret = Return zero_SuccessfulPickupRequest
              (Some (ErrWrap e0 ''estes.RequestPickup - could not make build request'')),
      trace = [Log_Println (pickup_xml e v)], after = s\<rparr>"
  by (simp add: RequestPickup_def xml_Marshal_pickup http_NewRequest_def)

lemma RequestPickup_post_fails:
  "heap s p = Some v \<Longrightarrow> newRequest_err e ''POST'' estesProductionURL = None \<Longrightarrow>
   client_Do e (timeout s) (pickup_request e v u pw) = Inl e0 \<Longrightarrow>
   RequestPickup e s p u pw =
     \<lparr>ret = Return zero_SuccessfulPickupRequest
              (Some (ErrWrap e0 ''estes.RequestPickup - could not make post request'')),
      trace = [Log_Println (pickup_xml e v), Http_Do (pickup_request e v u pw) (timeout s)],
      after = s\<rparr>"
  by (simp add: RequestPickup_def xml_Marshal_pickup http_NewRequest_def pickup_request_def
      SetBasicAuth_def Header_Add_def)

lemma RequestPickup_read_fails:
  "heap s p = Some v \<Longrightarrow> newRequest_err e ''POST'' estesProductionURL = None \<Longrightarrow>
   client_Do e (timeout s) (pickup_request e v u pw) = Inr res \<Longrightarrow>
   Body_ReadAll res = Inl e0 \<Longrightarrow>
   RequestPickup e s p u pw =
     \<lparr>ret = Return zero_SuccessfulPickupRequest
              (Some (ErrWrap e0 ''estes.RequestPickup - could not read response 1'')),
      trace = [Log_Println (pickup_xml e v), Http_Do (pickup_request e v u pw) (timeout s),
               Body_Close],
      after = s\<rparr>"
  by (simp add: RequestPickup_def xml_Marshal_pickup http_NewRequest_def pickup_request_def
      SetBasicAuth_def Header_Add_def)

lemma RequestPickup_reply:
  "heap s p = Some v \<Longrightarrow> newRequest_err e ''POST'' estesProductionURL = None \<Longrightarrow>
   client_Do e (timeout s) (pickup_request e v u pw) = Inr res \<Longrightarrow>
   Body_ReadAll res = Inr body \<Longrightarrow>
   RequestPickup e s p u pw =
     read_reply e s
       [Log_Println (pickup_xml e v), Http_Do (pickup_request e v u pw) (timeout s)] body"
  by (simp add: RequestPickup_def xml_Marshal_pickup http_NewRequest_def pickup_request_def
      SetBasicAuth_def Header_Add_def)

lemma after_read_reply: "after (read_reply e s tr body) = s"
  by (simp add: read_reply_def Let_def split: prod.splits option.splits)

lemma posts_read_reply: "posts (trace (read_reply e s tr body)) = posts tr"
proof -
  have app: "\<And>xs ys. posts (xs @ ys) = posts xs @ posts ys"
  proof -
    fix xs ys show "posts (xs @ ys) = posts xs @ posts ys"
      by (induction xs rule: posts.induct) simp_all
  qed
  show ?thesis
    by (simp add: read_reply_def Let_def app split: prod.splits option.splits)
qed

lemma after_RequestPickup: "after (RequestPickup e s p u pw) = s"
  by (simp add: RequestPickup_def after_read_reply Let_def split: option.splits sum.splits)

lemma posts_RequestPickup:
  "heap s p = Some v \<Longrightarrow> newRequest_err e ''POST'' estesProductionURL = None \<Longrightarrow>
   posts (trace (RequestPickup e s p u pw)) = [(pickup_request e v u pw, timeout s)]"
  by (simp add: RequestPickup_def xml_Marshal_pickup http_NewRequest_def pickup_request_def
      SetBasicAuth_def Header_Add_def posts_read_reply Let_def split: sum.splits)

lemma posts_RequestPickup_none:
  "heap s p = None \<or> newRequest_err e ''POST'' estesProductionURL \<noteq> None \<Longrightarrow>
   posts (trace (RequestPickup e s p u pw)) = []"
  by (auto simp add: RequestPickup_def xml_Marshal_pickup http_NewRequest_def Let_def split: option.splits)

subsection \<open>The sample worlds\<close>

lemma served_simps:
  "newRequest_err (served_with b t f) m u = None"
  "client_Do (served_with b t f) d r = Inr \<lparr>StatusCode = 200, Body_ReadAll = Inr b\<rparr>"
  "tokenize (served_with b t f) b = (t, f)"
  "formatFloat (served_with b t f) w = sample_FormatFloat w"
  by (simp_all add: served_with_def)

lemma ok_decodes:
  "xml_Unmarshal_Success (served ok_body ok_tokens) ok_body zero_SuccessfulPickupRequest =
     (\<lparr>XMLName_s = \<lparr>Space = [], Local = ''Envelope''\<rparr>,
       Response = \<lparr>RequestNumber_r = ''A123''\<rparr>\<rparr>, None)"
  by (simp add: xml_Unmarshal_Success_def served_def served_simps ok_tokens_def el_def en_def
      zero_SuccessfulPickupRequest_def)

lemma empty_decodes:
  "xml_Unmarshal_Success (served empty_body empty_tokens) empty_body zero_SuccessfulPickupRequest =
     (\<lparr>XMLName_s = \<lparr>Space = [], Local = ''Envelope''\<rparr>,
       Response = \<lparr>RequestNumber_r = []\<rparr>\<rparr>, None)"
  by (simp add: xml_Unmarshal_Success_def served_def served_simps empty_tokens_def el_def en_def
      zero_SuccessfulPickupRequest_def)

lemma cut_decodes:
  "xml_Unmarshal_Success (served_with cut_body cut_tokens unexpected_EOF) cut_body zero_SuccessfulPickupRequest =
     (\<lparr>XMLName_s = \<lparr>Space = [], Local = ''Envelope''\<rparr>,
       Response = \<lparr>RequestNumber_r = ''A123''\<rparr>\<rparr>, Some unexpected_EOF)"
  by (simp add: xml_Unmarshal_Success_def served_simps cut_tokens_def el_def en_def
      zero_SuccessfulPickupRequest_def)

lemma error_decodes_not:
  "xml_Unmarshal_Success (served (error_body c) (error_tokens c)) (error_body c) zero_SuccessfulPickupRequest =
     (zero_SuccessfulPickupRequest,
      Some (UnmarshalError ''expected element type <Envelope> but have <error>''))"
  by (simp add: xml_Unmarshal_Success_def served_def served_simps error_tokens_def el_def en_def)

lemma error_decodes:
  "xml_Unmarshal_Error (served (error_body c) (error_tokens c)) (error_body c) zero_ErrorPickupRequest =
     (\<lparr>XMLName_e = \<lparr>Space = [], Local = ''error''\<rparr>, Code = c,
       Description = ''Invalid date'', BadData = ''2019-02-30''\<rparr>, None)"
  by (simp add: xml_Unmarshal_Error_def served_def served_simps error_tokens_def el_def en_def
      zero_ErrorPickupRequest_def)

lemma sample_heap: "heap sample_state sample_addr = Some sample_input"
  by (simp add: sample_state_def init_state_def)

lemma sample_globals:
  "estesURL sample_state = estesTestURL" "timeout sample_state = 10 * Second"
  by (simp_all add: sample_state_def init_state_def)

subsection \<open>The package variables\<close>

lemma exec_estesURL:
  "estesURL s = estesProductionURL \<Longrightarrow> estesURL (exec e s c) = estesProductionURL"
  by (cases c) (simp_all add: SetProductionMode_def SetTimeout_def after_RequestPickup)

lemma exec_all_estesURL:
  "estesURL s = estesProductionURL \<Longrightarrow> estesURL (exec_all e s cs) = estesProductionURL"
  by (induction cs arbitrary: s) (simp_all add: exec_estesURL)

lemma urls_differ: "estesProductionURL \<noteq> estesTestURL"
  by (simp add: estesProductionURL_def estesTestURL_def)

lemma sint_mult_Second:
  assumes "- 9223372036 \<le> sint d" "sint d \<le> 9223372036"
  shows "sint (d * Second) = sint d * 1000000000"
proof -
  have s: "sint Second = 1000000000" by (simp add: Second_def)
  have "sint (d * Second) = signed_take_bit 63 (sint d * sint Second)"
    by (simp add: sint_word_ariths)
  also have "\<dots> = sint d * 1000000000"
    using assms by (simp add: s signed_take_bit_int_eq_self_iff)
  finally show ?thesis .
qed

subsection \<open>What a call logs and posts\<close>

lemma first_event:
  "heap s p = Some v \<Longrightarrow> take 1 (trace (RequestPickup e s p u pw)) = [Log_Println (pickup_xml e v)]"
  by (simp add: RequestPickup_def xml_Marshal_pickup http_NewRequest_def read_reply_def Let_def
      split: option.splits sum.splits prod.splits)

lemma posted_bodies:
  "heap s p = Some v \<Longrightarrow>
   map (\<lambda>x. Body (fst x)) (posts (trace (RequestPickup e s p u pw))) =
     (if newRequest_err e ''POST'' estesProductionURL = None then [pickup_xml e v] else [])"
  by (auto simp add: posts_RequestPickup posts_RequestPickup_none pickup_request_def)

lemma pickup_xml_cong:
  "formatFloat e1 (TotalWeight v) = formatFloat e2 (TotalWeight v) \<Longrightarrow>
   pickup_xml e1 v = pickup_xml e2 v"
  by (simp add: pickup_xml_def tree_PickupRequest_def fields_PickupRequestInput_def)

lemma shape_tree: "shape (tree_PickupRequest e1 pr) = shape (tree_PickupRequest e2 pr')"
  by (simp add: tree_PickupRequest_def fields_PickupRequestInput_def
      fields_Shipper_def fields_Address_def fields_Contact_def fields_Name_def fields_Phone_def
      leaf_def)

subsection \<open>The two decoders accept different roots\<close>

lemma Success_root:
  "snd (xml_Unmarshal_Success e body v) = None \<Longrightarrow>
   \<exists>n rest. first_StartElement (fst (tokenize e body)) = Some (n, rest) \<and> Local n = ''Envelope''"
  by (auto simp add: xml_Unmarshal_Success_def split: option.splits prod.splits if_splits)

lemma Error_root:
  "first_StartElement (fst (tokenize e body)) = Some (n, rest) \<Longrightarrow> Local n \<noteq> ''error'' \<Longrightarrow>
   xml_Unmarshal_Error e body v =
     (v, Some (UnmarshalError (''expected element type <error> but have <'' @ Local n @ ''>'')))"
  by (simp add: xml_Unmarshal_Error_def)

lemma never_both:
  "snd (xml_Unmarshal_Success e body v) = None \<Longrightarrow>
   xml_Unmarshal_Error e body v' =
     (v', Some (UnmarshalError ''expected element type <error> but have <Envelope>''))"
proof -
  assume "snd (xml_Unmarshal_Success e body v) = None"
  then obtain n rest where f: "first_StartElement (fst (tokenize e body)) = Some (n, rest)"
    and l: "Local n = ''Envelope''"
    using Success_root by blast
  from l have "Local n \<noteq> ''error''" by simp
  from Error_root [OF f this] l show ?thesis by simp
qed

subsection \<open>Escaping and unescaping text\<close>

lemma char_by_code:
  "c = CHR ''&'' \<longleftrightarrow> (of_char c :: nat) = 0x26"
  "c = CHR ''<'' \<longleftrightarrow> (of_char c :: nat) = 0x3C"
  "c = CHR ''>'' \<longleftrightarrow> (of_char c :: nat) = 0x3E"
  "c = CHR 0x22 \<longleftrightarrow> (of_char c :: nat) = 0x22"
  "c = CHR 0x27 \<longleftrightarrow> (of_char c :: nat) = 0x27"
  "c = CHR 0x09 \<longleftrightarrow> (of_char c :: nat) = 0x09"
  "c = CHR 0x0A \<longleftrightarrow> (of_char c :: nat) = 0x0A"
  "c = CHR 0x0D \<longleftrightarrow> (of_char c :: nat) = 0x0D"
  using of_char_eq_iff [of c "CHR ''&''", where ?'a = nat]
        of_char_eq_iff [of c "CHR ''<''", where ?'a = nat]
        of_char_eq_iff [of c "CHR ''>''", where ?'a = nat]
        of_char_eq_iff [of c "CHR 0x22", where ?'a = nat]
        of_char_eq_iff [of c "CHR 0x27", where ?'a = nat]
        of_char_eq_iff [of c "CHR 0x09", where ?'a = nat]
        of_char_eq_iff [of c "CHR 0x0A", where ?'a = nat]
        of_char_eq_iff [of c "CHR 0x0D", where ?'a = nat]
  by simp_all

lemma char_by_code':
  "CHR ''&'' = c \<longleftrightarrow> (of_char c :: nat) = 0x26"
  "CHR ''<'' = c \<longleftrightarrow> (of_char c :: nat) = 0x3C"
  "CHR ''>'' = c \<longleftrightarrow> (of_char c :: nat) = 0x3E"
  "CHR 0x22 = c \<longleftrightarrow> (of_char c :: nat) = 0x22"
  "CHR 0x27 = c \<longleftrightarrow> (of_char c :: nat) = 0x27"
  "CHR 0x09 = c \<longleftrightarrow> (of_char c :: nat) = 0x09"
  "CHR 0x0A = c \<longleftrightarrow> (of_char c :: nat) = 0x0A"
  "CHR 0x0D = c \<longleftrightarrow> (of_char c :: nat) = 0x0D"
  using of_char_eq_iff [of c "CHR ''&''", where ?'a = nat]
        of_char_eq_iff [of c "CHR ''<''", where ?'a = nat]
        of_char_eq_iff [of c "CHR ''>''", where ?'a = nat]
        of_char_eq_iff [of c "CHR 0x22", where ?'a = nat]
        of_char_eq_iff [of c "CHR 0x27", where ?'a = nat]
        of_char_eq_iff [of c "CHR 0x09", where ?'a = nat]
        of_char_eq_iff [of c "CHR 0x0A", where ?'a = nat]
        of_char_eq_iff [of c "CHR 0x0D", where ?'a = nat]
  by (simp_all add: eq_commute)

text \<open>What DecodeRune returns.\<close>

lemma DecodeRune_ascii: "(of_char c :: nat) < 0x80 \<Longrightarrow> DecodeRune (c # cs) = (of_char c, 1)"
  by (simp add: DecodeRune_def)

lemma below_cases:
  "(\<forall>i<2. P (i::nat)) \<longleftrightarrow> P 0 \<and> P 1"
  "(\<forall>i<3. P (i::nat)) \<longleftrightarrow> P 0 \<and> P 1 \<and> P 2"
  "(\<forall>i<4. P (i::nat)) \<longleftrightarrow> P 0 \<and> P 1 \<and> P 2 \<and> P 3"
  by (auto simp add: less_Suc_eq numeral_2_eq_2 numeral_3_eq_3 numeral_eq_Suc)

lemma accept_bounds: "0x80 \<le> accept_lo p0" "accept_hi p0 \<le> 0xBF"
  by (simp_all add: accept_lo_def accept_hi_def)

lemma value2:
  "0xC2 \<le> p0 \<Longrightarrow> rune_size p0 = 2 \<Longrightarrow> 0x80 \<le> p0 mod 32 * 64 + (x :: nat)"
proof -
  assume a: "0xC2 \<le> p0" "rune_size p0 = 2"
  then have "p0 < 0xE0" by (simp add: rune_size_def split: if_splits)
  with a have "2 \<le> p0 mod 32" by presburger
  then have "128 \<le> p0 mod 32 * 64" by simp
  then show ?thesis by simp
qed

lemma value3:
  assumes "rune_size p0 = 3" "accept_lo p0 \<le> b1" "b1 \<le> accept_hi p0"
  shows "0x80 \<le> p0 mod 16 * 4096 + b1 mod 64 * 64 + (x :: nat)"
proof -
  from assms(1) have r: "0xE0 \<le> p0" "p0 < 0xF0"
    by (simp_all add: rune_size_def split: if_splits)
  show ?thesis
  proof (cases "p0 = 0xE0")
    case True
    with assms(2,3) have "0xA0 \<le> b1" "b1 \<le> 0xBF"
      by (simp_all add: accept_lo_def accept_hi_def)
    then have "32 \<le> b1 mod 64" by presburger
    then have "2048 \<le> b1 mod 64 * 64" by simp
    then show ?thesis by simp
  next
    case False
    with r have "1 \<le> p0 mod 16" by presburger
    then have "4096 \<le> p0 mod 16 * 4096" by simp
    then show ?thesis by simp
  qed
qed

lemma value4:
  assumes "p0 \<le> 0xF4" "rune_size p0 = 4" "accept_lo p0 \<le> b1" "b1 \<le> accept_hi p0"
  shows "0x80 \<le> p0 mod 8 * 262144 + b1 mod 64 * 4096 + (x :: nat) + y"
proof -
  from assms(2) have r: "0xF0 \<le> p0"
    by (simp_all add: rune_size_def split: if_splits)
  show ?thesis
  proof (cases "p0 = 0xF0")
    case True
    with assms(3,4) have "0x90 \<le> b1" "b1 \<le> 0xBF"
      by (simp_all add: accept_lo_def accept_hi_def)
    then have "16 \<le> b1 mod 64" by presburger
    then have "65536 \<le> b1 mod 64 * 4096" by simp
    then show ?thesis by simp
  next
    case False
    with r assms(1) have "1 \<le> p0 mod 8" by presburger
    then have "262144 \<le> p0 mod 8 * 262144" by simp
    then show ?thesis by simp
  qed
qed

lemma DecodeRune_high:
  assumes "0x80 \<le> (of_char c :: nat)"
  shows "DecodeRune (c # cs) = (RuneError, 1) \<or>
         (2 \<le> snd (DecodeRune (c # cs)) \<and> snd (DecodeRune (c # cs)) \<le> length (c # cs) \<and>
          0x80 \<le> fst (DecodeRune (c # cs)) \<and>
          (\<forall>i < snd (DecodeRune (c # cs)). 0x80 \<le> (of_char ((c # cs) ! i) :: nat)))"
proof (cases "(of_char c :: nat) < 0xC2 \<or> 0xF4 < (of_char c :: nat)")
  case True
  with assms show ?thesis by (simp add: DecodeRune_def not_less)
next
  case False
  let ?p0 = "of_char c :: nat"
  from False have range: "0xC2 \<le> ?p0" "?p0 \<le> 0xF4" by simp_all
  have "rune_size ?p0 = 2 \<or> rune_size ?p0 = 3 \<or> rune_size ?p0 = 4"
    by (simp add: rune_size_def)
  then consider (two) "rune_size ?p0 = 2" | (three) "rune_size ?p0 = 3" | (four) "rune_size ?p0 = 4"
    by blast
  then show ?thesis
  proof cases
    case two
    note v = value2 [OF range(1) two] accept_bounds [of ?p0]
    show ?thesis
      using assms False v
      by (auto simp add: DecodeRune_def Let_def two below_cases not_less Suc_le_eq)
  next
    case three
    note v = value3 [OF three] accept_bounds [of ?p0]
    show ?thesis
      using assms False v
      by (auto simp add: DecodeRune_def Let_def three below_cases not_less)
  next
    case four
    note v = value4 [OF range(2) four] accept_bounds [of ?p0]
    show ?thesis
      using assms False v
      by (auto simp add: DecodeRune_def Let_def four below_cases not_less)
  qed
qed


lemma take_high:
  assumes "\<forall>i < w. 0x80 \<le> (of_char (xs ! i) :: nat)" "w \<le> length xs" "x \<in> set (take w xs)"
  shows "0x80 \<le> (of_char x :: nat)"
proof -
  from assms(3) obtain i where "i < length (take w xs)" "take w xs ! i = x"
    by (auto simp add: in_set_conv_nth)
  with assms(1,2) show ?thesis by auto
qed

lemma escape_rune_lt:
  "CHR ''<'' \<in> set (escape_rune r w raw) \<Longrightarrow> CHR ''<'' \<in> set raw \<and> r \<noteq> 0x3C"
  by (auto simp add: escape_rune_def escFFFD_def split: if_splits)

lemma escape_rune_head_lt:
  "CHR ''<'' \<notin> set (escape_rune (fst (DecodeRune (c # cs))) (snd (DecodeRune (c # cs)))
      (take (snd (DecodeRune (c # cs))) (c # cs)))"
proof (cases "(of_char c :: nat) < 0x80")
  case True
  show ?thesis
    using escape_rune_lt [of "of_char c" 1 "[c]"]
    by (auto simp add: DecodeRune_ascii [OF True] char_by_code)
next
  case False
  then have h: "0x80 \<le> (of_char c :: nat)" by simp
  from DecodeRune_high [OF h, of cs] show ?thesis
  proof
    assume "DecodeRune (c # cs) = (RuneError, 1)"
    then show ?thesis by (simp add: escape_rune_def RuneError_def escFFFD_def)
  next
    assume m: "2 \<le> snd (DecodeRune (c # cs)) \<and> snd (DecodeRune (c # cs)) \<le> length (c # cs) \<and>
          0x80 \<le> fst (DecodeRune (c # cs)) \<and>
          (\<forall>i < snd (DecodeRune (c # cs)). 0x80 \<le> (of_char ((c # cs) ! i) :: nat))"
    show ?thesis
    proof
      assume "CHR ''<'' \<in> set (escape_rune (fst (DecodeRune (c # cs))) (snd (DecodeRune (c # cs)))
        (take (snd (DecodeRune (c # cs))) (c # cs)))"
      then have "CHR ''<'' \<in> set (take (snd (DecodeRune (c # cs))) (c # cs))"
        using escape_rune_lt by blast
      with m have "0x80 \<le> (of_char (CHR ''<'') :: nat)"
        using take_high by blast
      then show False by simp
    qed
  qed
qed

lemma escapeText_no_lt: "CHR ''<'' \<notin> set (escapeText s)"
proof (induction s rule: escapeText.induct)
  case 1
  show ?case by simp
next
  case (2 c cs)
  then show ?case
    using escape_rune_head_lt [of c cs] by (simp add: escapeText.simps(2) Let_def)
qed


lemma unescape_no_amp: "CHR ''&'' \<notin> set xs \<Longrightarrow> unescape (xs @ ys) = xs @ unescape ys"
  by (induction xs) auto

lemma unescape_escape_rune_ascii:
  assumes "(of_char c :: nat) < 0x80" "isInCharacterRange (of_char c)"
  shows "unescape (escape_rune (of_char c) 1 [c] @ ys) = c # unescape ys"
proof -
  have ne: "(of_char c :: nat) \<noteq> RuneError" using assms(1) by (simp add: RuneError_def)
  show ?thesis
    using assms(2) ne
    by (auto simp add: escape_rune_def char_by_code char_by_code')
qed


lemma valid_text_Cons:
  "valid_text (c # cs) \<longleftrightarrow>
     isInCharacterRange (fst (DecodeRune (c # cs))) \<and>
     \<not> (fst (DecodeRune (c # cs)) = RuneError \<and> snd (DecodeRune (c # cs)) = 1) \<and>
     valid_text (drop (snd (DecodeRune (c # cs))) (c # cs))"
  by (simp add: valid_text.simps(2) Let_def)

lemma escapeText_Cons:
  "escapeText (c # cs) =
     escape_rune (fst (DecodeRune (c # cs))) (snd (DecodeRune (c # cs)))
       (take (snd (DecodeRune (c # cs))) (c # cs)) @
     escapeText (drop (snd (DecodeRune (c # cs))) (c # cs))"
  by (simp add: escapeText.simps(2) Let_def)

lemma escape_rune_high:
  "0x80 \<le> r \<Longrightarrow> isInCharacterRange r \<Longrightarrow> \<not> (r = RuneError \<and> w = 1) \<Longrightarrow>
   escape_rune r w raw = raw"
  by (auto simp add: escape_rune_def)

lemma unescape_escapeText: "valid_text s \<Longrightarrow> unescape (escapeText s) = s"
proof (induction s rule: escapeText.induct)
  case 1
  show ?case by simp
next
  case (2 c cs)
  let ?r = "fst (DecodeRune (c # cs))" and ?w = "snd (DecodeRune (c # cs))"
  from "2.prems" have v: "isInCharacterRange ?r" "\<not> (?r = RuneError \<and> ?w = 1)"
    "valid_text (drop ?w (c # cs))"
    by (simp_all add: valid_text_Cons)
  from "2.IH" [OF refl refl v(3)]
  have ih: "unescape (escapeText (drop ?w (c # cs))) = drop ?w (c # cs)" .
  show ?case
  proof (cases "(of_char c :: nat) < 0x80")
    case True
    note d = DecodeRune_ascii [OF True, of cs]
    from v(1) have "isInCharacterRange (of_char c)" by (simp add: d)
    from unescape_escape_rune_ascii [OF True this] ih
    show ?thesis by (simp add: escapeText_Cons d)
  next
    case False
    then have h: "0x80 \<le> (of_char c :: nat)" by simp
    from DecodeRune_high [OF h, of cs] v(2)
    have m: "2 \<le> ?w" "?w \<le> length (c # cs)" "0x80 \<le> ?r"
      "\<forall>i < ?w. 0x80 \<le> (of_char ((c # cs) ! i) :: nat)"
      by auto
    have raw: "escape_rune ?r ?w (take ?w (c # cs)) = take ?w (c # cs)"
      using m(3) v(1,2) by (rule escape_rune_high)
    have "CHR ''&'' \<notin> set (take ?w (c # cs))"
    proof
      assume "CHR ''&'' \<in> set (take ?w (c # cs))"
      from take_high [OF m(4) m(2) this] show False by simp
    qed
    from unescape_no_amp [OF this] ih
    have "unescape (take ?w (c # cs) @ escapeText (drop ?w (c # cs))) =
          take ?w (c # cs) @ drop ?w (c # cs)"
      by simp
    then show ?thesis
      by (simp only: escapeText_Cons raw append_take_drop_id)
  qed
qed

lemma DecodeRune_plain: "plain c \<Longrightarrow> DecodeRune (c # cs) = (of_char c, 1)"
  by (simp add: plain_def DecodeRune_ascii)

lemma escapeText_plain_Cons: "plain c \<Longrightarrow> escapeText (c # cs) = c # escapeText cs"
  by (simp add: escapeText_Cons DecodeRune_plain escape_rune_def isInCharacterRange_def
      plain_def RuneError_def)

lemma escapeText_plain: "list_all plain s \<Longrightarrow> escapeText s = s"
  by (induction s) (simp_all add: escapeText_plain_Cons)

lemma valid_text_plain: "list_all plain s \<Longrightarrow> valid_text s"
  by (induction s)
     (simp_all add: valid_text_Cons DecodeRune_plain isInCharacterRange_def plain_def RuneError_def)

lemma plain_digits: "d < 10 \<Longrightarrow> plain (digits ! d)"
proof -
  assume "d < 10"
  then consider "d = 0" | "d = 1" | "d = 2" | "d = 3" | "d = 4" | "d = 5" | "d = 6" | "d = 7"
    | "d = 8" | "d = 9"
    by (auto simp add: less_Suc_eq numeral_eq_Suc)
  then show ?thesis by cases (simp_all add: digits_def plain_def)
qed

lemma plain_FormatUint: "list_all plain (FormatUint n)"
proof (induction n rule: FormatUint.induct)
  case (1 n)
  show ?case
  proof (cases "n < 10")
    case True
    then show ?thesis by (simp add: FormatUint.simps [of n] plain_digits)
  next
    case False
    with "1.IH" show ?thesis by (simp add: FormatUint.simps [of n] plain_digits)
  qed
qed

lemma valid_FormatUint: "valid_text (FormatUint n)"
  by (rule valid_text_plain) (rule plain_FormatUint)

lemma escapeText_ctl: "escapeText [CHR 0x01] = escFFFD" "escapeText [CHR 0x02] = escFFFD"
  by (simp_all add: escapeText_Cons DecodeRune_def escape_rune_def isInCharacterRange_def
      RuneError_def)

lemma sample_xml: "pickup_xml offline sample_input = sample_document"
  by (simp add: pickup_xml_def tree_PickupRequest_def fields_PickupRequestInput_def
      fields_Shipper_def fields_Address_def fields_Contact_def fields_Name_def fields_Phone_def
      leaf_def render_attr_def sample_input_def soapenvAttr_def estAttr_def offline_def
      sample_FormatFloat_def FormatUint.simps digits_def escapeText_plain plain_def
      sample_document_def)

subsection \<open>The reader inverts the serialiser\<close>

lemma expect_append [simp]: "expect lit (lit @ r) = Some r"
  by (simp add: expect_def)

lemma render_leaf: "render (leaf tag v) = open_tag tag @ escapeText v @ close_tag tag"
  by (simp add: leaf_def open_tag_def close_tag_def)

lemma render_plain_Element:
  "render (Element n [] cs) = open_tag n @ concat (map render cs) @ close_tag n"
  by (simp add: open_tag_def close_tag_def)

lemma close_tag_Cons: "close_tag n @ r = CHR ''<'' # (''/'' @ n @ ''>'' @ r)"
  by (simp add: close_tag_def)

lemma parse_text_render:
  assumes "valid_text v"
  shows "parse_text tag (open_tag tag @ escapeText v @ close_tag tag @ r) = Some (v, r)"
proof -
  have p: "\<forall>x \<in> set (escapeText v). x \<noteq> CHR ''<''"
    using escapeText_no_lt [of v] by auto
  have t: "takeWhile (\<lambda>c. c \<noteq> CHR ''<'') (escapeText v @ close_tag tag @ r) = escapeText v"
    using p by (simp add: close_tag_Cons takeWhile_tail)
  have d: "dropWhile (\<lambda>c. c \<noteq> CHR ''<'') (escapeText v @ close_tag tag @ r) = close_tag tag @ r"
    using p by (simp add: close_tag_Cons dropWhile_append3)
  show ?thesis
    by (simp add: parse_text_def t d unescape_escapeText [OF assms])
qed

lemma digit_of_digits: "d < 10 \<Longrightarrow> digit_of (digits ! d) = Some d"
proof -
  assume "d < 10"
  then consider "d = 0" | "d = 1" | "d = 2" | "d = 3" | "d = 4" | "d = 5" | "d = 6" | "d = 7"
    | "d = 8" | "d = 9"
    by (auto simp add: less_Suc_eq numeral_eq_Suc)
  then show ?thesis by cases (simp_all add: digits_def)
qed

lemma parse_digits_append:
  "parse_digits acc (xs @ ys) =
     (case parse_digits acc xs of None \<Rightarrow> None | Some a \<Rightarrow> parse_digits a ys)"
  by (induction xs arbitrary: acc) (simp_all split: option.splits)

lemma parse_digits_FormatUint: "parse_digits 0 (FormatUint n) = Some n"
proof (induction n rule: FormatUint.induct)
  case (1 n)
  show ?case
  proof (cases "n < 10")
    case True
    then show ?thesis
      using digit_of_digits [OF True]
      by (simp add: FormatUint.simps [of n] del: digit_of.simps)
  next
    case False
    have m: "n mod 10 < 10" by simp
    from False "1.IH" have ih: "parse_digits 0 (FormatUint (n div 10)) = Some (n div 10)" by simp
    show ?thesis
      using False ih digit_of_digits [OF m]
      by (simp add: FormatUint.simps [of n] parse_digits_append del: digit_of.simps)
  qed
qed

lemma FormatUint_nonempty: "FormatUint n \<noteq> []"
  by (simp add: FormatUint.simps [of n])

lemma ParseUint_FormatUint: "ParseUint (FormatUint (unat (w :: 64 word))) = Some w"
proof -
  have "unat w < 2 ^ 64" using unsigned_less [of w] by simp
  then show ?thesis
    by (simp add: ParseUint_def FormatUint_nonempty parse_digits_FormatUint)
qed

lemma parse_elem_render:
  assumes "\<And>r'. p (body @ r') = Some (v, r')"
  shows "parse_elem tag p (open_tag tag @ body @ close_tag tag @ r) = Some (v, r)"
  by (simp add: parse_elem_def assms)

lemma parse_Name_render:
  assumes "valid_text (First n)" "valid_text (Middle n)" "valid_text (Last n)"
  shows "parse_Name (concat (map render (fields_Name n)) @ r) = Some (n, r)"
  using assms
  by (simp add: parse_Name_def fields_Name_def render_leaf parse_text_render del: render.simps)

lemma parse_Phone_render:
  assumes "valid_text (AreaCode ph)" "valid_text (Number ph)"
  shows "parse_Phone (concat (map render (fields_Phone ph)) @ r) = Some (ph, r)"
  using assms
  by (simp add: parse_Phone_def fields_Phone_def render_leaf parse_text_render del: render.simps)

lemma parse_Contact_render:
  assumes "valid_text (First (Name c))" "valid_text (Middle (Name c))" "valid_text (Last (Name c))"
    "valid_text (Email c)" "valid_text (AreaCode (Phone c))" "valid_text (Number (Phone c))"
  shows "parse_Contact (concat (map render (fields_Contact c)) @ r) = Some (c, r)"
  using assms
  by (simp add: parse_Contact_def fields_Contact_def render_leaf render_plain_Element
      parse_text_render parse_elem_render parse_Name_render parse_Phone_render
      del: render.simps)

lemma parse_Address_render:
  assumes "valid_text (AddressLine1 a)" "valid_text (City a)" "valid_text (StateProvince a)"
    "valid_text (PostalCode a)" "valid_text (Country a)" "valid_text (AddressLine2 a)"
  shows "parse_Address (concat (map render (fields_Address a)) @ r) = Some (a, r)"
  using assms
  by (simp add: parse_Address_def fields_Address_def render_leaf parse_text_render
      del: render.simps)

lemma parse_elem2_render:
  assumes "\<And>r'. p (body @ r') = Some (v, r')"
  shows "parse_elem t1 (parse_elem t2 p)
           (open_tag t1 @ open_tag t2 @ body @ close_tag t2 @ close_tag t1 @ r) = Some (v, r)"
  by (simp add: parse_elem_def assms)

lemma parse_Shipper_render:
  assumes "valid_text (ShipperName sh)"
    "valid_text (AddressLine1 (ShipperAddress sh))" "valid_text (City (ShipperAddress sh))"
    "valid_text (StateProvince (ShipperAddress sh))" "valid_text (PostalCode (ShipperAddress sh))"
    "valid_text (Country (ShipperAddress sh))" "valid_text (AddressLine2 (ShipperAddress sh))"
    "valid_text (First (Name (ShipperContact sh)))" "valid_text (Middle (Name (ShipperContact sh)))"
    "valid_text (Last (Name (ShipperContact sh)))" "valid_text (Email (ShipperContact sh))"
    "valid_text (AreaCode (Phone (ShipperContact sh)))" "valid_text (Number (Phone (ShipperContact sh)))"
  shows "parse_Shipper (concat (map render (fields_Shipper sh)) @ r) = Some (sh, r)"
  using assms
  by (simp add: parse_Shipper_def fields_Shipper_def render_leaf render_plain_Element
      parse_text_render parse_elem2_render parse_Address_render parse_Contact_render
      del: render.simps)

lemma parse_PickupRequestInput_render:
  assumes "valid_input e v" and "pf (formatFloat e (TotalWeight v)) = Some (TotalWeight v)"
  shows "parse_PickupRequestInput pf (concat (map render (fields_PickupRequestInput e v)) @ r) =
           Some (v, r)"
  using assms
  by (simp add: parse_PickupRequestInput_def fields_PickupRequestInput_def valid_input_def
      render_leaf render_plain_Element parse_text_render parse_elem_render parse_Shipper_render
      valid_FormatUint ParseUint_FormatUint
      del: render.simps)

lemma pickup_xml_eq:
  "pickup_xml e v =
     envelope_open @
     open_tag ''soapenv:Body'' @ open_tag ''est:createPickupRequestWS'' @
     open_tag ''pickupRequestInput'' @
     concat (map render (fields_PickupRequestInput e v)) @
     close_tag ''pickupRequestInput'' @ close_tag ''est:createPickupRequestWS'' @
     close_tag ''soapenv:Body'' @ close_tag ''soapenv:Envelope''"
  by (simp add: pickup_xml_def tree_PickupRequest_def envelope_open_def open_tag_def close_tag_def)

lemma expect_self [simp]: "expect lit lit = Some []"
  by (simp add: expect_def)

lemma parse_elem3_render:
  assumes "\<And>r'. p (body @ r') = Some (v, r')"
  shows "parse_elem t1 (parse_elem t2 (parse_elem t3 p))
           (open_tag t1 @ open_tag t2 @ open_tag t3 @ body @
            close_tag t3 @ close_tag t2 @ close_tag t1 @ r) = Some (v, r)"
  by (simp add: parse_elem_def assms)

lemma parse_envelope_pickup_xml:
  assumes "valid_input e v" and "pf (formatFloat e (TotalWeight v)) = Some (TotalWeight v)"
  shows "parse_envelope pf (pickup_xml e v) = Some v"
proof -
  have inner: "\<And>r. parse_PickupRequestInput pf
      (concat (map render (fields_PickupRequestInput e v)) @ r) = Some (v, r)"
    using assms by (rule parse_PickupRequestInput_render)
  show ?thesis
    by (simp add: parse_envelope_def pickup_xml_eq parse_elem3_render [of _ _ v, OF inner])
qed

lemma sample_valid: "valid_input offline sample_input"
  by (simp add: valid_input_def sample_input_def offline_def sample_FormatFloat_def
      valid_text_plain plain_def)

section \<open>The claims\<close>

subsection \<open>C1: the endpoint of the POST\<close>

text \<open>
  C1 says that the POST goes to the configured endpoint: the test URL while
  production mode has never been set, the production URL after
  \<^verbatim>\<open>SetProductionMode(true)\<close>. The code passes the constant
  \<^verbatim>\<open>estesProductionURL\<close> to \<^verbatim>\<open>http.NewRequest\<close> (line 180) and never reads
  \<^verbatim>\<open>estesURL\<close>: in the state the package starts in, where \<^verbatim>\<open>estesURL\<close> is the
  test URL, the one request of a call goes to the production URL.
\<close>

theorem C1_test_mode_posts_to_production:
  "estesURL sample_state = estesTestURL \<and>
   map (\<lambda>x. URL (fst x)) (posts (trace (RequestPickup (served ok_body ok_tokens)
      sample_state sample_addr ''user'' ''secret''))) = [estesProductionURL] \<and>
   estesProductionURL \<noteq> estesTestURL"
proof -
  have n: "newRequest_err (served ok_body ok_tokens) ''POST'' estesProductionURL = None"
    by (simp add: served_def served_simps)
  show ?thesis
    using posts_RequestPickup [OF sample_heap n] urls_differ
    by (simp add: sample_globals pickup_request_def)
qed

subsection \<open>C3: a reply that is not the success shape\<close>

text \<open>
  C3 as stated fails. A reply \<^verbatim>\<open><error>...</error>\<close> does not parse as the success
  shape and does parse as the error shape, yet the call returns the decoder's error
  wrapped with \<^verbatim>\<open>could not read response 2\<close>: the error shape is not tried. The
  same error is returned for a second, different body, so the body cannot be read off
  the error.
\<close>

theorem C3_counterexample:
  "ret (RequestPickup (served (error_body ''E100'') (error_tokens ''E100'')) sample_state
         sample_addr ''user'' ''secret'') =
     Return zero_SuccessfulPickupRequest
       (Some (ErrWrap (UnmarshalError ''expected element type <Envelope> but have <error>'')
                ''estes.RequestPickup - could not read response 2'')) \<and>
   xml_Unmarshal_Error (served (error_body ''E100'') (error_tokens ''E100'')) (error_body ''E100'')
       zero_ErrorPickupRequest =
     (\<lparr>XMLName_e = \<lparr>Space = [], Local = ''error''\<rparr>, Code = ''E100'',
       Description = ''Invalid date'', BadData = ''2019-02-30''\<rparr>, None) \<and>
   ret (RequestPickup (served (error_body ''E200'') (error_tokens ''E200'')) sample_state
         sample_addr ''user'' ''secret'') =
     ret (RequestPickup (served (error_body ''E100'') (error_tokens ''E100'')) sample_state
         sample_addr ''user'' ''secret'') \<and>
   error_body ''E200'' \<noteq> error_body ''E100''"
proof -
  have a: "\<And>c. ret (RequestPickup (served (error_body c) (error_tokens c)) sample_state
         sample_addr ''user'' ''secret'') =
     Return zero_SuccessfulPickupRequest
       (Some (ErrWrap (UnmarshalError ''expected element type <Envelope> but have <error>'')
                ''estes.RequestPickup - could not read response 2''))"
    by (simp add: RequestPickup_reply [OF sample_heap] served_def served_simps read_reply_def
        error_decodes_not [unfolded served_def])
  have b: "error_body ''E200'' \<noteq> error_body ''E100''"
    by (simp add: error_body_def)
  from a [of "''E100''"] a [of "''E200''"] b error_decodes [of "''E100''"] show ?thesis
    by (simp only:) simp
qed

text \<open>
  C3, amended: for every reply body that fails to parse as the success shape,
  \<^verbatim>\<open>RequestPickup\<close> logs the body and returns at once the decoder's error wrapped
  with the message \<^verbatim>\<open>estes.RequestPickup - could not read response 2\<close>; the body is
  not parsed as the error shape, the error's text is that message and the decoder's,
  and the raw body is in the log only.
\<close>

theorem C3_decoder_error_returned_at_once:
  assumes "heap s p = Some v"
    and "newRequest_err e ''POST'' estesProductionURL = None"
    and "client_Do e (timeout s) (pickup_request e v u pw) = Inr res"
    and "Body_ReadAll res = Inr body"
    and "xml_Unmarshal_Success e body zero_SuccessfulPickupRequest = (r, Some e0)"
  shows "RequestPickup e s p u pw =
           \<lparr>ret = Return r (Some (ErrWrap e0 ''estes.RequestPickup - could not read response 2'')),
            trace = [Log_Println (pickup_xml e v),
                     Http_Do (pickup_request e v u pw) (timeout s),
                     Log_Println body, Body_Close],
            after = s\<rparr> \<and>
         Error (ErrWrap e0 ''estes.RequestPickup - could not read response 2'') =
           ''estes.RequestPickup - could not read response 2: '' @ Error e0"
  using assms by (simp add: RequestPickup_reply read_reply_def)

theorem C3_decoder_error_returned_at_once_witness:
  "RequestPickup (served (error_body ''E100'') (error_tokens ''E100'')) sample_state sample_addr
       ''user'' ''secret'' =
     \<lparr>ret = Return zero_SuccessfulPickupRequest
              (Some (ErrWrap (UnmarshalError ''expected element type <Envelope> but have <error>'')
                      ''estes.RequestPickup - could not read response 2'')),
      trace = [Log_Println (pickup_xml (served (error_body ''E100'') (error_tokens ''E100'')) sample_input),
               Http_Do (pickup_request (served (error_body ''E100'') (error_tokens ''E100''))
                          sample_input ''user'' ''secret'') (timeout sample_state),
               Log_Println (error_body ''E100''), Body_Close],
      after = sample_state\<rparr>"
proof -
  let ?e = "served (error_body ''E100'') (error_tokens ''E100'')"
  have n: "newRequest_err ?e ''POST'' estesProductionURL = None"
    by (simp add: served_def served_simps)
  have d: "client_Do ?e (timeout sample_state) (pickup_request ?e sample_input ''user'' ''secret'') =
      Inr \<lparr>StatusCode = 200, Body_ReadAll = Inr (error_body ''E100'')\<rparr>"
    by (simp add: served_def served_simps)
  have b: "Body_ReadAll \<lparr>StatusCode = 200, Body_ReadAll = Inr (error_body ''E100'')\<rparr> =
      Inr (error_body ''E100'')"
    by simp
  from C3_decoder_error_returned_at_once [OF sample_heap n d b error_decodes_not]
  show ?thesis by blast
qed

subsection \<open>C4: the success path\<close>

text \<open>
  C4: \<^verbatim>\<open>RequestPickup\<close> returns a nil error with the result \<open>r\<close> exactly when the
  call got a reply body that \<^verbatim>\<open>xml.Unmarshal\<close> read into \<open>r\<close> without error and the
  request number of \<open>r\<close> is not empty. So a body that parses as the success shape with
  a non-empty request number gives a nil error and the number read from the body,
  there is no other way to a nil error, and a reply whose request number is empty is
  never a success.
\<close>

theorem C4_sole_success_path:
  "ret (RequestPickup e s p u pw) = Return r None \<longleftrightarrow>
   (\<exists>v res body. heap s p = Some v \<and> newRequest_err e ''POST'' estesProductionURL = None \<and>
      client_Do e (timeout s) (pickup_request e v u pw) = Inr res \<and>
      Body_ReadAll res = Inr body \<and>
      xml_Unmarshal_Success e body zero_SuccessfulPickupRequest = (r, None) \<and>
      RequestNumber_r (Response r) \<noteq> [])"
proof (cases "heap s p")
  case None
  then show ?thesis by (simp add: RequestPickup_nil)
next
  case v: (Some v)
  show ?thesis
  proof (cases "newRequest_err e ''POST'' estesProductionURL")
    case (Some e0)
    with v show ?thesis by (simp add: RequestPickup_build_fails)
  next
    case built: None
    show ?thesis
    proof (cases "client_Do e (timeout s) (pickup_request e v u pw)")
      case (Inl e0)
      with v built show ?thesis by (simp add: RequestPickup_post_fails)
    next
      case res: (Inr res)
      show ?thesis
      proof (cases "Body_ReadAll res")
        case (Inl e0)
        with v built res show ?thesis by (simp add: RequestPickup_read_fails)
      next
        case (Inr body)
        with v built res show ?thesis
          by (auto simp add: RequestPickup_reply read_reply_def Let_def
              split: prod.splits option.splits)
      qed
    qed
  qed
qed

theorem C4_sole_success_path_witness:
  "ret (RequestPickup (served ok_body ok_tokens) sample_state sample_addr
        ''user'' ''secret'') =
     Return \<lparr>XMLName_s = \<lparr>Space = [], Local = ''Envelope''\<rparr>,
             Response = \<lparr>RequestNumber_r = ''A123''\<rparr>\<rparr> None \<and>
   ret (RequestPickup (served empty_body empty_tokens) sample_state sample_addr
        ''user'' ''secret'') \<noteq>
     Return \<lparr>XMLName_s = \<lparr>Space = [], Local = ''Envelope''\<rparr>,
             Response = \<lparr>RequestNumber_r = []\<rparr>\<rparr> None"
proof -
  let ?s = "sample_state"
  let ?ok = "\<lparr>XMLName_s = \<lparr>Space = [], Local = ''Envelope''\<rparr>,
             Response = \<lparr>RequestNumber_r = ''A123''\<rparr>\<rparr>"
  let ?empty = "\<lparr>XMLName_s = \<lparr>Space = [], Local = ''Envelope''\<rparr>,
             Response = \<lparr>RequestNumber_r = []\<rparr>\<rparr>"
  have "\<exists>v res body. heap ?s sample_addr = Some v \<and>
      newRequest_err (served ok_body ok_tokens) ''POST'' estesProductionURL = None \<and>
      client_Do (served ok_body ok_tokens) (timeout ?s)
        (pickup_request (served ok_body ok_tokens) v ''user'' ''secret'') = Inr res \<and>
      Body_ReadAll res = Inr body \<and>
      xml_Unmarshal_Success (served ok_body ok_tokens) body zero_SuccessfulPickupRequest = (?ok, None) \<and>
      RequestNumber_r (Response ?ok) \<noteq> []"
    apply (rule exI [of _ sample_input])
    apply (rule exI [of _ "\<lparr>StatusCode = 200, Body_ReadAll = Inr ok_body\<rparr>"])
    apply (rule exI [of _ ok_body])
    using ok_decodes apply (simp add: sample_heap served_def served_simps)
    done
  then have a: "ret (RequestPickup (served ok_body ok_tokens) ?s sample_addr ''user'' ''secret'') = Return ?ok None"
    using C4_sole_success_path [of "served ok_body ok_tokens" ?s sample_addr "''user''" "''secret''" ?ok]
    by blast
  have "\<not> (\<exists>v res body. heap ?s sample_addr = Some v \<and>
      newRequest_err (served empty_body empty_tokens) ''POST'' estesProductionURL = None \<and>
      client_Do (served empty_body empty_tokens) (timeout ?s)
        (pickup_request (served empty_body empty_tokens) v ''user'' ''secret'') = Inr res \<and>
      Body_ReadAll res = Inr body \<and>
      xml_Unmarshal_Success (served empty_body empty_tokens) body zero_SuccessfulPickupRequest = (?empty, None) \<and>
      RequestNumber_r (Response ?empty) \<noteq> [])"
    by simp
  then have b: "ret (RequestPickup (served empty_body empty_tokens) ?s sample_addr ''user'' ''secret'') \<noteq> Return ?empty None"
    using C4_sole_success_path [of "served empty_body empty_tokens" ?s sample_addr "''user''" "''secret''" ?empty]
    by blast
  from a b show ?thesis by simp
qed

subsection \<open>C5: the timeout of the transport call\<close>

text \<open>
  C5 as stated fails: \<^verbatim>\<open>SetTimeout(d)\<close> stores \<open>d * time.Second\<close>, not \<open>d\<close>. After
  \<^verbatim>\<open>SetTimeout(10 * time.Second)\<close> the client's timeout is the product wrapped at 64
  bits, a negative duration and not ten seconds; after \<^verbatim>\<open>SetTimeout(1)\<close>, a duration
  of one nanosecond, it is one second.
\<close>

theorem C5_counterexample:
  "map snd (posts (trace (RequestPickup offline
      (SetTimeout (10 * Second) sample_state) sample_addr ''user'' ''secret''))) =
     [10 * Second * Second] \<and>
   10 * Second * Second \<noteq> (10 * Second :: Duration) \<and>
   sint (10 * Second * Second :: Duration) = - 8446744073709551616 \<and>
   map snd (posts (trace (RequestPickup offline
      (SetTimeout 1 sample_state) sample_addr ''user'' ''secret''))) = [Second] \<and>
   Second \<noteq> (1 :: Duration)"
proof -
  have h: "\<And>d. heap (SetTimeout d sample_state) sample_addr = Some sample_input"
    by (simp add: SetTimeout_def sample_heap)
  have n: "newRequest_err offline ''POST'' estesProductionURL = None"
    by (simp add: offline_def)
  have t: "\<And>d. timeout (SetTimeout d sample_state) = d * Second"
    by (simp add: SetTimeout_def)
  have a: "map snd (posts (trace (RequestPickup offline
      (SetTimeout (10 * Second) sample_state) sample_addr ''user'' ''secret''))) =
     [10 * Second * Second]"
    by (simp add: posts_RequestPickup [OF h n] t)
  have b: "map snd (posts (trace (RequestPickup offline
      (SetTimeout 1 sample_state) sample_addr ''user'' ''secret''))) = [Second]"
    by (simp add: posts_RequestPickup [OF h n] t)
  have c: "10 * Second * Second \<noteq> (10 * Second :: Duration)"
    by (simp add: Second_def)
  have d: "sint (10 * Second * Second :: Duration) = - 8446744073709551616"
    by (simp add: Second_def)
  have e: "Second \<noteq> (1 :: Duration)"
    by (simp add: Second_def)
  from a b c d e show ?thesis by blast
qed

text \<open>
  C5, amended: the timeout given to the HTTP client is the package variable
  \<^verbatim>\<open>timeout\<close> as it is when \<^verbatim>\<open>RequestPickup\<close> is called; the variable starts at ten
  seconds; \<^verbatim>\<open>SetTimeout(d)\<close> sets it to \<open>d * time.Second\<close> in 64-bit arithmetic, which
  is \<open>d\<close> seconds when \<open>d\<close> is a count between -9223372036 and 9223372036.
\<close>

theorem C5_timeout_applied:
  assumes "heap s p = Some v" and "newRequest_err e ''POST'' estesProductionURL = None"
    and "- 9223372036 \<le> sint d" and "sint d \<le> 9223372036"
  shows "map snd (posts (trace (RequestPickup e s p u pw))) = [timeout s] \<and>
         timeout (init_state h) = 10 * Second \<and>
         sint (10 * Second :: Duration) = 10000000000 \<and>
         timeout (SetTimeout d' s') = d' * Second \<and>
         sint (d * Second) = sint d * 1000000000"
proof -
  have a: "map snd (posts (trace (RequestPickup e s p u pw))) = [timeout s]"
    using assms(1,2) by (simp add: posts_RequestPickup)
  have b: "timeout (init_state h) = 10 * Second"
    by (simp add: init_state_def)
  have c: "sint (10 * Second :: Duration) = 10000000000"
    by (simp add: Second_def)
  have d: "timeout (SetTimeout d' s') = d' * Second"
    by (simp add: SetTimeout_def)
  have e: "sint (d * Second) = sint d * 1000000000"
    using assms(3,4) by (rule sint_mult_Second)
  from a b c d e show ?thesis by blast
qed

theorem C5_timeout_applied_witness:
  "map snd (posts (trace (RequestPickup offline
      (SetTimeout 30 sample_state) sample_addr ''user'' ''secret''))) = [30 * Second] \<and>
   sint (30 * Second :: Duration) = 30 * 1000000000 \<and>
   sint (10 * Second :: Duration) = 10000000000"
proof -
  let ?s = "SetTimeout 30 sample_state"
  have h: "heap ?s sample_addr = Some sample_input"
    by (simp add: SetTimeout_def sample_heap)
  have n: "newRequest_err offline ''POST'' estesProductionURL = None"
    by (simp add: offline_def)
  have lo: "- 9223372036 \<le> sint (30 :: Duration)" by simp
  have hi: "sint (30 :: Duration) \<le> 9223372036" by simp
  note inst = C5_timeout_applied [OF h n lo hi, of "''user''" "''secret''" Map.empty 30 sample_state]
  from inst have a: "map snd (posts (trace (RequestPickup offline ?s sample_addr ''user'' ''secret''))) =
      [timeout ?s]" by blast
  from inst have b: "timeout ?s = 30 * Second" by blast
  from inst have c: "sint (10 * Second :: Duration) = 10000000000" by blast
  from inst have d: "sint (30 * Second :: Duration) = sint (30 :: Duration) * 1000000000" by blast
  have e: "sint (30 :: Duration) = 30" by simp
  from a b c d e show ?thesis by (simp only:)
qed

subsection \<open>C6: the serialised bytes depend on the input only\<close>

text \<open>
  C6: two serialisations of the same input give the same bytes. Any two calls of
  \<^verbatim>\<open>RequestPickup\<close> whose receivers hold the same \<^verbatim>\<open>PickupRequestInput\<close>, in any two
  program states, with any credentials and in any two worlds that print the weight
  alike, log and post byte-identical XML, \<open>pickup_xml e1 v\<close>; and the document has the
  same elements in the same order whatever the input is.
\<close>

theorem C6_same_input_same_bytes:
  assumes "heap s1 p1 = Some v" and "heap s2 p2 = Some v"
    and "formatFloat e1 (TotalWeight v) = formatFloat e2 (TotalWeight v)"
  shows "take 1 (trace (RequestPickup e1 s1 p1 u1 pw1)) = [Log_Println (pickup_xml e1 v)] \<and>
         take 1 (trace (RequestPickup e2 s2 p2 u2 pw2)) = [Log_Println (pickup_xml e1 v)] \<and>
         map (\<lambda>x. Body (fst x)) (posts (trace (RequestPickup e1 s1 p1 u1 pw1))) =
           (if newRequest_err e1 ''POST'' estesProductionURL = None then [pickup_xml e1 v] else []) \<and>
         map (\<lambda>x. Body (fst x)) (posts (trace (RequestPickup e2 s2 p2 u2 pw2))) =
           (if newRequest_err e2 ''POST'' estesProductionURL = None then [pickup_xml e1 v] else []) \<and>
         shape (tree_PickupRequest e1 pr) = shape (tree_PickupRequest e2 pr')"
proof -
  note c = pickup_xml_cong [OF assms(3)]
  have a1: "take 1 (trace (RequestPickup e1 s1 p1 u1 pw1)) = [Log_Println (pickup_xml e1 v)]"
    by (rule first_event [OF assms(1)])
  have a2: "take 1 (trace (RequestPickup e2 s2 p2 u2 pw2)) = [Log_Println (pickup_xml e1 v)]"
    unfolding c by (rule first_event [OF assms(2)])
  have b1: "map (\<lambda>x. Body (fst x)) (posts (trace (RequestPickup e1 s1 p1 u1 pw1))) =
           (if newRequest_err e1 ''POST'' estesProductionURL = None then [pickup_xml e1 v] else [])"
    by (rule posted_bodies [OF assms(1)])
  have b2: "map (\<lambda>x. Body (fst x)) (posts (trace (RequestPickup e2 s2 p2 u2 pw2))) =
           (if newRequest_err e2 ''POST'' estesProductionURL = None then [pickup_xml e1 v] else [])"
    unfolding c by (rule posted_bodies [OF assms(2)])
  from a1 a2 b1 b2 shape_tree [of e1 pr e2 pr'] show ?thesis by blast
qed

theorem C6_same_input_same_bytes_witness:
  "take 1 (trace (RequestPickup offline sample_state sample_addr ''user'' ''secret'')) =
     [Log_Println sample_document] \<and>
   take 1 (trace (RequestPickup (served ok_body ok_tokens) other_state (Suc sample_addr)
     ''someone'' ''else'')) = [Log_Println sample_document] \<and>
   map (\<lambda>x. Body (fst x)) (posts (trace (RequestPickup offline sample_state sample_addr
     ''user'' ''secret''))) = [sample_document] \<and>
   map (\<lambda>x. Body (fst x)) (posts (trace (RequestPickup (served ok_body ok_tokens) other_state
     (Suc sample_addr) ''someone'' ''else''))) = [sample_document]"
proof -
  have h2: "heap other_state (Suc sample_addr) = Some sample_input"
    by (simp add: other_state_def SetProductionMode_def SetTimeout_def init_state_def)
  have f: "formatFloat offline (TotalWeight sample_input) =
           formatFloat (served ok_body ok_tokens) (TotalWeight sample_input)"
    by (simp add: offline_def served_def served_simps)
  have n1: "newRequest_err offline ''POST'' estesProductionURL = None"
    by (simp add: offline_def)
  have n2: "newRequest_err (served ok_body ok_tokens) ''POST'' estesProductionURL = None"
    by (simp add: served_def served_simps)
  note inst = C6_same_input_same_bytes [OF sample_heap h2 f, of "''user''" "''secret''"
      "''someone''" "''else''"]
  from inst have a1: "take 1 (trace (RequestPickup offline sample_state sample_addr ''user'' ''secret'')) =
     [Log_Println (pickup_xml offline sample_input)]" by blast
  from inst have a2: "take 1 (trace (RequestPickup (served ok_body ok_tokens) other_state (Suc sample_addr)
     ''someone'' ''else'')) = [Log_Println (pickup_xml offline sample_input)]" by blast
  from inst have "map (\<lambda>x. Body (fst x)) (posts (trace (RequestPickup offline sample_state
     sample_addr ''user'' ''secret''))) =
       (if newRequest_err offline ''POST'' estesProductionURL = None
        then [pickup_xml offline sample_input] else [])" by blast
  then have b1: "map (\<lambda>x. Body (fst x)) (posts (trace (RequestPickup offline sample_state
     sample_addr ''user'' ''secret''))) = [pickup_xml offline sample_input]"
    by (simp add: n1)
  from inst have "map (\<lambda>x. Body (fst x)) (posts (trace (RequestPickup (served ok_body ok_tokens)
     other_state (Suc sample_addr) ''someone'' ''else''))) =
       (if newRequest_err (served ok_body ok_tokens) ''POST'' estesProductionURL = None
        then [pickup_xml offline sample_input] else [])" by blast
  then have b2: "map (\<lambda>x. Body (fst x)) (posts (trace (RequestPickup (served ok_body ok_tokens)
     other_state (Suc sample_addr) ''someone'' ''else''))) = [pickup_xml offline sample_input]"
    by (simp add: n2)
  from a1 a2 b1 b2 show ?thesis by (simp only: sample_xml)
qed

subsection \<open>C7: the round trip\<close>

text \<open>
  C7 as stated fails. The serialiser writes U+FFFD for every byte that is not part
  of a character XML allows, so two shipments that differ only in a control character
  of \<^verbatim>\<open>WhoRequested\<close> (bytes 1 and 2) are serialised to the same bytes: no reader
  can give back both.
\<close>

theorem C7_counterexample:
  "pickup_xml offline (ctl_input (CHR 0x01)) = pickup_xml offline (ctl_input (CHR 0x02)) \<and>
   ctl_input (CHR 0x01) \<noteq> ctl_input (CHR 0x02) \<and>
   WhoRequested (ctl_input (CHR 0x01)) = [CHR 0x01] \<and>
   render (leaf ''whoRequested'' (WhoRequested (ctl_input (CHR 0x01)))) =
     ''<whoRequested>'' @ [CHR 0xEF, CHR 0xBF, CHR 0xBD] @ ''</whoRequested>''"
proof -
  have a: "pickup_xml offline (ctl_input (CHR 0x01)) = pickup_xml offline (ctl_input (CHR 0x02))"
    by (simp add: pickup_xml_def tree_PickupRequest_def fields_PickupRequestInput_def
        ctl_input_def leaf_def escapeText_ctl)
  have b: "ctl_input (CHR 0x01) \<noteq> ctl_input (CHR 0x02)"
  proof
    assume "ctl_input (CHR 0x01) = ctl_input (CHR 0x02)"
    then have "WhoRequested (ctl_input (CHR 0x01)) = WhoRequested (ctl_input (CHR 0x02))"
      by simp
    then show False by (simp add: ctl_input_def)
  qed
  have c: "WhoRequested (ctl_input (CHR 0x01)) = [CHR 0x01]"
    by (simp add: ctl_input_def)
  have d: "render (leaf ''whoRequested'' (WhoRequested (ctl_input (CHR 0x01)))) =
     ''<whoRequested>'' @ [CHR 0xEF, CHR 0xBF, CHR 0xBD] @ ''</whoRequested>''"
    by (simp add: c leaf_def escapeText_ctl escFFFD_def)
  from a b c d show ?thesis by blast
qed

text \<open>
  C7, amended: for every \<^verbatim>\<open>PickupRequestInput\<close> whose string fields are valid UTF-8
  made of characters XML allows, and whose weight the reader's float parser reads
  back from the text the serialiser prints for it, serialising it into the envelope
  and parsing the XML back against the schema yields the same value, field for field;
  an empty field is serialised as an empty element, not left out.
\<close>

theorem C7_round_trip:
  assumes "valid_input e v" and "pf (formatFloat e (TotalWeight v)) = Some (TotalWeight v)"
  shows "parse_envelope pf (pickup_xml e v) = Some v \<and>
         render (leaf tag []) = open_tag tag @ close_tag tag"
  using parse_envelope_pickup_xml [where pf = pf, OF assms] by (simp add: render_leaf)

theorem C7_round_trip_witness:
  "valid_input offline sample_input \<and>
   sample_ParseFloat (formatFloat offline (TotalWeight sample_input)) = Some (TotalWeight sample_input) \<and>
   parse_envelope sample_ParseFloat (pickup_xml offline sample_input) = Some sample_input \<and>
   AddressLine2 (ShipperAddress (Shipper sample_input)) = [] \<and>
   render (leaf ''addressLine2'' []) = ''<addressLine2></addressLine2>''"
proof -
  have f: "sample_ParseFloat (formatFloat offline (TotalWeight sample_input)) =
           Some (TotalWeight sample_input)"
    by (simp add: sample_ParseFloat_def offline_def sample_input_def sample_FormatFloat_def)
  have e: "AddressLine2 (ShipperAddress (Shipper sample_input)) = []"
    by (simp add: sample_input_def)
  from C7_round_trip [where pf = sample_ParseFloat and tag = "''addressLine2''", OF sample_valid f]
    sample_valid f e
  show ?thesis by (simp add: open_tag_def close_tag_def)
qed

subsection \<open>C8: what is returned with an error\<close>

text \<open>
  C8 as stated fails: with a non-nil error the returned \<^verbatim>\<open>SuccessfulPickupRequest\<close>
  need not be the zero value. A reply \<^verbatim>\<open><Envelope><Body></Body></Envelope>\<close> gives the
  error \<^verbatim>\<open>pickup request failed\<close> together with a result whose \<^verbatim>\<open>XMLName\<close> is set,
  and a reply cut off after its request number gives a decoder error together with a
  result that holds the request number.
\<close>

theorem C8_counterexample:
  "ret (RequestPickup (served empty_body empty_tokens) sample_state sample_addr ''user'' ''secret'') =
     Return \<lparr>XMLName_s = \<lparr>Space = [], Local = ''Envelope''\<rparr>,
             Response = \<lparr>RequestNumber_r = []\<rparr>\<rparr>
       (Some (ErrNew ''estes.RequestPickup - pickup request failed'')) \<and>
   \<lparr>XMLName_s = \<lparr>Space = [], Local = ''Envelope''\<rparr>, Response = \<lparr>RequestNumber_r = []\<rparr>\<rparr>
     \<noteq> zero_SuccessfulPickupRequest \<and>
   ret (RequestPickup (served_with cut_body cut_tokens unexpected_EOF) sample_state sample_addr
         ''user'' ''secret'') =
     Return \<lparr>XMLName_s = \<lparr>Space = [], Local = ''Envelope''\<rparr>,
             Response = \<lparr>RequestNumber_r = ''A123''\<rparr>\<rparr>
       (Some (ErrWrap unexpected_EOF ''estes.RequestPickup - could not read response 2''))"
proof -
  have a: "ret (RequestPickup (served empty_body empty_tokens) sample_state sample_addr ''user'' ''secret'') =
     Return \<lparr>XMLName_s = \<lparr>Space = [], Local = ''Envelope''\<rparr>,
             Response = \<lparr>RequestNumber_r = []\<rparr>\<rparr>
       (Some (ErrNew ''estes.RequestPickup - pickup request failed''))"
    by (simp add: RequestPickup_reply [OF sample_heap] served_def served_simps read_reply_def
        empty_decodes [unfolded served_def])
  have b: "\<lparr>XMLName_s = \<lparr>Space = [], Local = ''Envelope''\<rparr>, Response = \<lparr>RequestNumber_r = []\<rparr>\<rparr>
     \<noteq> zero_SuccessfulPickupRequest"
    by (simp add: zero_SuccessfulPickupRequest_def zero_Name_def)
  have c: "ret (RequestPickup (served_with cut_body cut_tokens unexpected_EOF) sample_state sample_addr
         ''user'' ''secret'') =
     Return \<lparr>XMLName_s = \<lparr>Space = [], Local = ''Envelope''\<rparr>,
             Response = \<lparr>RequestNumber_r = ''A123''\<rparr>\<rparr>
       (Some (ErrWrap unexpected_EOF ''estes.RequestPickup - could not read response 2''))"
    by (simp add: RequestPickup_reply [OF sample_heap] served_simps read_reply_def cut_decodes)
  from a b c show ?thesis by blast
qed

text \<open>
  C8, amended: for every execution of \<^verbatim>\<open>RequestPickup\<close> that returns a non-nil error,
  the first failing stage ends the call and no later stage runs (the trace stops
  there). The returned \<^verbatim>\<open>SuccessfulPickupRequest\<close> is the zero value when building the
  request, the HTTP call or reading the body fails; when decoding the reply fails or
  the decoded request number is empty, it is what the decoder stored in
  \<^verbatim>\<open>responseData\<close>, which need not be zero.
\<close>

theorem C8_failing_stage_ends_the_call:
  "RequestPickup e s p u pw = \<lparr>ret = Return r (Some err), trace = tr, after = s'\<rparr> \<longleftrightarrow>
   s' = s \<and>
   (case heap s p of
      None \<Rightarrow> False
    | Some v \<Rightarrow>
       (case newRequest_err e ''POST'' estesProductionURL of
          Some e0 \<Rightarrow>
            r = zero_SuccessfulPickupRequest \<and>
            err = ErrWrap e0 ''estes.RequestPickup - could not make build request'' \<and>
            tr = [Log_Println (pickup_xml e v)]
        | None \<Rightarrow>
           (case client_Do e (timeout s) (pickup_request e v u pw) of
              Inl e0 \<Rightarrow>
                r = zero_SuccessfulPickupRequest \<and>
                err = ErrWrap e0 ''estes.RequestPickup - could not make post request'' \<and>
                tr = [Log_Println (pickup_xml e v),
                      Http_Do (pickup_request e v u pw) (timeout s)]
            | Inr res \<Rightarrow>
               (case Body_ReadAll res of
                  Inl e0 \<Rightarrow>
                    r = zero_SuccessfulPickupRequest \<and>
                    err = ErrWrap e0 ''estes.RequestPickup - could not read response 1'' \<and>
                    tr = [Log_Println (pickup_xml e v),
                          Http_Do (pickup_request e v u pw) (timeout s), Body_Close]
                | Inr body \<Rightarrow>
                   (case snd (xml_Unmarshal_Success e body zero_SuccessfulPickupRequest) of
                      Some e0 \<Rightarrow>
                        r = fst (xml_Unmarshal_Success e body zero_SuccessfulPickupRequest) \<and>
                        err = ErrWrap e0 ''estes.RequestPickup - could not read response 2'' \<and>
                        tr = [Log_Println (pickup_xml e v),
                              Http_Do (pickup_request e v u pw) (timeout s),
                              Log_Println body, Body_Close]
                    | None \<Rightarrow>
                        r = fst (xml_Unmarshal_Success e body zero_SuccessfulPickupRequest) \<and>
                        RequestNumber_r (Response r) = [] \<and>
                        err = ErrNew ''estes.RequestPickup - pickup request failed'' \<and>
                        tr = [Log_Println (pickup_xml e v),
                              Http_Do (pickup_request e v u pw) (timeout s),
                              Log_Println ''estes.RequestPickup - pickup request failed'',
                              Log_Printf body,
                              Log_Println_ErrorData
                                (fst (xml_Unmarshal_Error e body zero_ErrorPickupRequest)),
                              Body_Close])))))"
proof (cases "heap s p")
  case None
  then show ?thesis by (simp add: RequestPickup_nil)
next
  case v: (Some v)
  show ?thesis
  proof (cases "newRequest_err e ''POST'' estesProductionURL")
    case (Some e0)
    with v show ?thesis by (auto simp add: RequestPickup_build_fails)
  next
    case built: None
    show ?thesis
    proof (cases "client_Do e (timeout s) (pickup_request e v u pw)")
      case (Inl e0)
      with v built show ?thesis by (auto simp add: RequestPickup_post_fails)
    next
      case res: (Inr res)
      show ?thesis
      proof (cases "Body_ReadAll res")
        case (Inl e0)
        with v built res show ?thesis by (auto simp add: RequestPickup_read_fails)
      next
        case (Inr body)
        with v built res show ?thesis
          by (auto simp add: RequestPickup_reply read_reply_def Let_def
              split: prod.splits option.splits)
      qed
    qed
  qed
qed

theorem C8_failing_stage_ends_the_call_witness:
  "RequestPickup offline sample_state sample_addr ''user'' ''secret'' =
     \<lparr>ret = Return zero_SuccessfulPickupRequest
              (Some (ErrWrap (LibError ''dial tcp: connection refused'')
                      ''estes.RequestPickup - could not make post request'')),
      trace = [Log_Println (pickup_xml offline sample_input),
               Http_Do (pickup_request offline sample_input ''user'' ''secret'')
                 (timeout sample_state)],
      after = sample_state\<rparr>"
  by (rule C8_failing_stage_ends_the_call [THEN iffD2])
     (simp add: sample_heap offline_def)

subsection \<open>C9: production mode is never left\<close>

text \<open>
  C9: \<^verbatim>\<open>SetProductionMode(false)\<close> changes nothing in any state, and once \<^verbatim>\<open>estesURL\<close> is the
  production URL it stays the production URL under \<^verbatim>\<open>SetProductionMode\<close> with any
  argument and under any sequence of calls into the package: no operation switches
  back to the test URL.
\<close>

theorem C9_production_url_is_kept:
  assumes "estesURL s = estesProductionURL"
  shows "SetProductionMode False s0 = s0 \<and>
         estesURL (SetProductionMode yes s) = estesProductionURL \<and>
         estesURL (exec_all e s cs) = estesProductionURL"
  using assms by (simp add: SetProductionMode_def exec_all_estesURL)

theorem C9_production_url_is_kept_witness:
  "estesURL (SetProductionMode True sample_state) = estesProductionURL \<and>
   SetProductionMode False sample_state = sample_state \<and>
   estesURL sample_state = estesTestURL \<and>
   estesURL (SetProductionMode False (SetProductionMode True sample_state)) =
     estesProductionURL \<and>
   estesURL (exec_all offline (SetProductionMode True sample_state)
      [Call_SetProductionMode False, Call_SetTimeout 30,
       Call_RequestPickup sample_addr ''user'' ''secret'',
       Call_SetProductionMode False]) = estesProductionURL \<and>
   estesProductionURL \<noteq> estesTestURL"
proof -
  have h: "estesURL (SetProductionMode True sample_state) = estesProductionURL"
    by (simp add: SetProductionMode_def)
  from h C9_production_url_is_kept [OF h, of sample_state False offline
        "[Call_SetProductionMode False, Call_SetTimeout 30,
          Call_RequestPickup sample_addr ''user'' ''secret'',
          Call_SetProductionMode False]"] urls_differ sample_globals(1)
  show ?thesis by blast
qed

subsection \<open>C10: the receiver is not written\<close>

text \<open>
  C10: \<^verbatim>\<open>RequestPickup\<close> leaves the program state as it found it, whatever it
  returns; in particular the object its receiver points to has the fields it had
  before the call.
\<close>

theorem C10_receiver_unchanged:
  "after (RequestPickup e s p u pw) = s \<and>
   heap (after (RequestPickup e s p u pw)) p = heap s p"
  by (simp add: after_RequestPickup)

section \<open>Further properties\<close>

text \<open>
  The request as built: when the receiver is not nil and \<^verbatim>\<open>http.NewRequest\<close> accepts
  its arguments, a call makes exactly one HTTP call, a POST to the production URL with
  the serialised input as its body, the given credentials as basic authentication, the
  header \<^verbatim>\<open>Content-Type: text/xml\<close>, and the package's timeout.
\<close>

theorem request_as_built:
  assumes "heap s p = Some v" and "newRequest_err e ''POST'' estesProductionURL = None"
  shows "posts (trace (RequestPickup e s p u pw)) =
           [(\<lparr>Method = ''POST'', URL = estesProductionURL, Body = pickup_xml e v,
              BasicAuth = Some (u, pw), Header = [(''Content-Type'', ''text/xml'')]\<rparr>,
             timeout s)]"
  using assms by (simp add: posts_RequestPickup pickup_request_def)

theorem request_as_built_witness:
  "posts (trace (RequestPickup offline sample_state sample_addr ''user'' ''secret'')) =
     [(\<lparr>Method = ''POST'', URL = estesProductionURL, Body = sample_document,
        BasicAuth = Some (''user'', ''secret''), Header = [(''Content-Type'', ''text/xml'')]\<rparr>,
       10 * Second)]"
proof -
  have n: "newRequest_err offline ''POST'' estesProductionURL = None"
    by (simp add: offline_def)
  from request_as_built [OF sample_heap n, of "''user''" "''secret''"]
  show ?thesis by (simp only: sample_xml sample_globals)
qed

text \<open>
  A nil receiver: reading \<^verbatim>\<open>*p\<close> panics before anything is logged or sent.
\<close>

theorem nil_receiver_panics:
  assumes "heap s p = None"
  shows "RequestPickup e s p u pw =
           \<lparr>ret = Panic ''invalid memory address or nil pointer dereference'',
            trace = [], after = s\<rparr>"
  using assms by (rule RequestPickup_nil)

theorem nil_receiver_panics_witness:
  "RequestPickup offline (init_state Map.empty) 0 ''user'' ''secret'' =
     \<lparr>ret = Panic ''invalid memory address or nil pointer dereference'',
      trace = [], after = init_state Map.empty\<rparr>"
proof -
  have h: "heap (init_state Map.empty) 0 = None"
    by (simp add: init_state_def)
  from nil_receiver_panics [OF h] show ?thesis .
qed

text \<open>
  The two reply decoders never accept the same body: a body that
  \<^verbatim>\<open>xml.Unmarshal\<close> reads into a \<^verbatim>\<open>SuccessfulPickupRequest\<close> without error has the
  root \<^verbatim>\<open>Envelope\<close>, so reading it into an \<^verbatim>\<open>ErrorPickupRequest\<close> fails on the
  root's name and stores nothing. The error data \<^verbatim>\<open>RequestPickup\<close> logs for a reply
  with no request number is therefore always the zero value.
\<close>

theorem decoders_disagree_on_root:
  assumes "snd (xml_Unmarshal_Success e body v) = None"
  shows "xml_Unmarshal_Error e body v' =
           (v', Some (UnmarshalError ''expected element type <error> but have <Envelope>''))"
  using assms by (rule never_both)

theorem decoders_disagree_on_root_witness:
  "snd (xml_Unmarshal_Success (served ok_body ok_tokens) ok_body zero_SuccessfulPickupRequest) = None \<and>
   xml_Unmarshal_Error (served ok_body ok_tokens) ok_body zero_ErrorPickupRequest =
     (zero_ErrorPickupRequest,
      Some (UnmarshalError ''expected element type <error> but have <Envelope>''))"
proof -
  have h: "snd (xml_Unmarshal_Success (served ok_body ok_tokens) ok_body
             zero_SuccessfulPickupRequest) = None"
    by (simp add: ok_decodes)
  from h decoders_disagree_on_root [OF h, of zero_ErrorPickupRequest] show ?thesis by blast
qed

text \<open>
  A reply with no request number: for every reply body that \<^verbatim>\<open>xml.Unmarshal\<close> reads
  into a \<^verbatim>\<open>SuccessfulPickupRequest\<close> without error and with an empty request number,
  \<^verbatim>\<open>RequestPickup\<close> fails with the fixed error
  \<^verbatim>\<open>estes.RequestPickup - pickup request failed\<close>; what reading the same body as an
  \<^verbatim>\<open>ErrorPickupRequest\<close> gives is written to the log only, after the fixed message
  and the body, and is no part of the returned error.
\<close>

theorem empty_number_fixed_error:
  assumes "heap s p = Some v"
    and "newRequest_err e ''POST'' estesProductionURL = None"
    and "client_Do e (timeout s) (pickup_request e v u pw) = Inr res"
    and "Body_ReadAll res = Inr body"
    and "xml_Unmarshal_Success e body zero_SuccessfulPickupRequest = (r, None)"
    and "RequestNumber_r (Response r) = []"
  shows "RequestPickup e s p u pw =
           \<lparr>ret = Return r (Some (ErrNew ''estes.RequestPickup - pickup request failed'')),
            trace = [Log_Println (pickup_xml e v),
                     Http_Do (pickup_request e v u pw) (timeout s),
                     Log_Println ''estes.RequestPickup - pickup request failed'',
                     Log_Printf body,
                     Log_Println_ErrorData (fst (xml_Unmarshal_Error e body zero_ErrorPickupRequest)),
                     Body_Close],
            after = s\<rparr>"
  using assms by (simp add: RequestPickup_reply read_reply_def)

theorem empty_number_fixed_error_witness:
  "RequestPickup (served empty_body empty_tokens) sample_state sample_addr ''user'' ''secret'' =
     \<lparr>ret = Return \<lparr>XMLName_s = \<lparr>Space = [], Local = ''Envelope''\<rparr>,
                     Response = \<lparr>RequestNumber_r = []\<rparr>\<rparr>
              (Some (ErrNew ''estes.RequestPickup - pickup request failed'')),
      trace = [Log_Println (pickup_xml (served empty_body empty_tokens) sample_input),
               Http_Do (pickup_request (served empty_body empty_tokens) sample_input
                          ''user'' ''secret'') (timeout sample_state),
               Log_Println ''estes.RequestPickup - pickup request failed'',
               Log_Printf empty_body,
               Log_Println_ErrorData zero_ErrorPickupRequest,
               Body_Close],
      after = sample_state\<rparr>"
proof -
  let ?e = "served empty_body empty_tokens"
  let ?r = "\<lparr>XMLName_s = \<lparr>Space = [], Local = ''Envelope''\<rparr>,
             Response = \<lparr>RequestNumber_r = []\<rparr>\<rparr>"
  have n: "newRequest_err ?e ''POST'' estesProductionURL = None"
    by (simp add: served_def served_simps)
  have d: "client_Do ?e (timeout sample_state) (pickup_request ?e sample_input ''user'' ''secret'') =
      Inr \<lparr>StatusCode = 200, Body_ReadAll = Inr empty_body\<rparr>"
    by (simp add: served_def served_simps)
  have b: "Body_ReadAll \<lparr>StatusCode = 200, Body_ReadAll = Inr empty_body\<rparr> = Inr empty_body"
    by simp
  have q: "RequestNumber_r (Response ?r) = []" by simp
  have z: "fst (xml_Unmarshal_Error ?e empty_body zero_ErrorPickupRequest) = zero_ErrorPickupRequest"
    using never_both [of ?e empty_body zero_SuccessfulPickupRequest zero_ErrorPickupRequest]
      empty_decodes by simp
  from empty_number_fixed_error [OF sample_heap n d b empty_decodes q] z
  show ?thesis by simp
qed

end
